theory Spec2Isabelle
  imports Main "HOL-Library.Log_Nat"
begin

section \<open>JavaScript values used by the client\<close>

text \<open>
  Strings are \<^typ>\<open>string\<close>; a value of type \<open>string | null\<close> (or \<open>undefined\<close>) is a
  \<^typ>\<open>string option\<close>. JavaScript treats the empty string as falsy, so the idiom
  \<^verbatim>\<open>x || null\<close> maps both a missing value and the empty string to \<open>null\<close>.
\<close>

definition or_null :: "string option \<Rightarrow> string option" where
  "or_null x = (case x of None \<Rightarrow> None | Some s \<Rightarrow> (if s = [] then None else Some s))"

text \<open>A template literal renders \<open>null\<close> as the four characters \<^verbatim>\<open>null\<close>.\<close>

definition template :: "string option \<Rightarrow> string" where
  "template x = (case x of None \<Rightarrow> ''null'' | Some s \<Rightarrow> s)"

section \<open>JavaScript numbers\<close>

text \<open>
  A value of type \<^verbatim>\<open>number\<close> is a double: not a number, one of the two infinities, or
  finite. A finite double is given by its value, a rational number of the form
  \<open>m * 2^k\<close> with \<open>\<bar>m\<bar> < 2^53\<close>, \<open>- 1074 \<le> k\<close> and magnitude below \<open>2^1024\<close>; the two
  zeros are not told apart (they are equal under \<^verbatim>\<open>===\<close> and behave alike under
  addition of a non-zero number).
\<close>

datatype number = NaN | PosInfinity | NegInfinity | Finite rat

definition pow2 :: "int \<Rightarrow> rat" where
  "pow2 e = (if 0 \<le> e then 2 ^ nat e else 1 / 2 ^ nat (- e))"

text \<open>For a positive \<open>q\<close>, the exponent \<open>e\<close> with \<open>2^e \<le> q < 2^(e + 1)\<close>.\<close>

definition floor_log2 :: "rat \<Rightarrow> int" where
  "floor_log2 q =
     (let (a, b) = quotient_of q; e = bitlen a - bitlen b
      in if q < pow2 e then e - 1 else e)"

definition round_half_even :: "rat \<Rightarrow> int" where
  "round_half_even x =
     (let f = \<lfloor>x\<rfloor>; d = x - of_int f
      in if d < 1 / 2 then f else if 1 / 2 < d then f + 1 else if even f then f else f + 1)"

text \<open>
  The result of an arithmetic operation is its exact result rounded to the nearest
  double, ties going to the even significand: the exact value is cut to 53 significant
  bits (fewer below \<open>2^(- 1022)\<close>), and a rounded magnitude of \<open>2^1024\<close> or more is an
  infinity.
\<close>

definition round_double :: "rat \<Rightarrow> number" where
  "round_double q =
     (if q = 0 then Finite 0
      else
        (let k = max (floor_log2 \<bar>q\<bar> - 52) (- 1074);
             r = of_int (round_half_even (q / pow2 k)) * pow2 k
         in if pow2 1024 \<le> \<bar>r\<bar> then (if 0 < q then PosInfinity else NegInfinity)
            else Finite r))"

text \<open>The operators \<^verbatim>\<open>+\<close> and \<^verbatim>\<open>-\<close> on numbers, and \<^verbatim>\<open>===\<close>.\<close>

fun js_add :: "number \<Rightarrow> number \<Rightarrow> number" where
  "js_add NaN y = NaN"
| "js_add x NaN = NaN"
| "js_add PosInfinity NegInfinity = NaN"
| "js_add NegInfinity PosInfinity = NaN"
| "js_add PosInfinity y = PosInfinity"
| "js_add x PosInfinity = PosInfinity"
| "js_add NegInfinity y = NegInfinity"
| "js_add x NegInfinity = NegInfinity"
| "js_add (Finite a) (Finite b) = round_double (a + b)"

fun js_negate :: "number \<Rightarrow> number" where
  "js_negate NaN = NaN"
| "js_negate PosInfinity = NegInfinity"
| "js_negate NegInfinity = PosInfinity"
| "js_negate (Finite a) = Finite (- a)"

definition js_subtract :: "number \<Rightarrow> number \<Rightarrow> number" where
  "js_subtract x y = js_add x (js_negate y)"

definition strict_equals :: "number \<Rightarrow> number \<Rightarrow> bool" where
  "strict_equals x y = (x \<noteq> NaN \<and> x = y)"

section \<open>JSON values\<close>

text \<open>
  What \<^verbatim>\<open>response.json()\<close> can yield. Reading the property \<^verbatim>\<open>detail\<close> or
  \<^verbatim>\<open>error\<close> of a value other than \<open>null\<close> gives the member of an object and
  \<open>undefined\<close> (here \<open>None\<close>) in every other case; on \<open>null\<close> it throws, which the
  callers below treat apart. \<open>truthy\<close> is the test that \<^verbatim>\<open>||\<close> makes, and
  \<open>to_string\<close> the conversion that \<^verbatim>\<open>new Error(value)\<close> applies to its argument; the
  printing of a number is a built-in and a parameter here.
\<close>

datatype json =
    JNull
  | JBool bool
  | JNumber number
  | JString string
  | JArray "json list"
  | JObject "string \<rightharpoonup> json"

definition own_property :: "json \<Rightarrow> string \<Rightarrow> json option" where
  "own_property v name = (case v of JObject members \<Rightarrow> members name | _ \<Rightarrow> None)"

fun truthy :: "json \<Rightarrow> bool" where
  "truthy JNull = False"
| "truthy (JBool b) = b"
| "truthy (JNumber n) = (n \<noteq> NaN \<and> n \<noteq> Finite 0)"
| "truthy (JString s) = (s \<noteq> [])"
| "truthy (JArray xs) = True"
| "truthy (JObject members) = True"

fun join_comma :: "string list \<Rightarrow> string" where
  "join_comma [] = []"
| "join_comma [s] = s"
| "join_comma (s # t # ss) = s @ '','' @ join_comma (t # ss)"

fun to_string :: "(number \<Rightarrow> string) \<Rightarrow> json \<Rightarrow> string" where
  "to_string number_to_string JNull = ''null''"
| "to_string number_to_string (JBool b) = (if b then ''true'' else ''false'')"
| "to_string number_to_string (JNumber n) = number_to_string n"
| "to_string number_to_string (JString s) = s"
| "to_string number_to_string (JArray xs) =
     join_comma
       (map (\<lambda>x. case x of JNull \<Rightarrow> [] | _ \<Rightarrow> to_string number_to_string x) xs)"
| "to_string number_to_string (JObject members) = ''[object Object]''"

section \<open>The authentication service (services/auth.ts)\<close>

record AuthTokens =
  access :: string
  refresh :: string

text \<open>The field \<^verbatim>\<open>id\<close> of the interface \<^verbatim>\<open>User\<close> is named \<open>user_id\<close> here.\<close>

record User =
  user_id :: number
  username :: string
  email :: string
  first_name :: string
  last_name :: string

text \<open>
  \<^verbatim>\<open>AuthResponse\<close> has the fields \<^verbatim>\<open>message\<close>, \<^verbatim>\<open>user\<close> and \<^verbatim>\<open>tokens\<close>; the last two carry
  a prefix because the service has private fields of the same names.
\<close>

record AuthResponse =
  message :: string
  resp_user :: User
  resp_tokens :: AuthTokens

text \<open>
  A request configuration of the HTTP client: the verb, the endpoint, the query parameters
  and the payload (both opaque to the client) and the header object.
\<close>

record RequestConfig =
  http_method :: string
  url :: string
  params :: "string option"
  payload :: "string option"
  headers :: "string \<rightharpoonup> string"

text \<open>
  What the client does to the network is recorded in a trace: a request put on the wire by
  the HTTP client, the reply to it (resolved with a status, or rejected with the status of
  the reply when there was one), and a POST of a refresh token to the refresh endpoint.
\<close>

datatype event =
    Sent RequestConfig
  | Resolved nat
  | Rejected "nat option"
  | RefreshPost string

text \<open>
  The state the code reads and writes: the two private fields of the \<^verbatim>\<open>AuthService\<close>
  singleton (\<open>tokens\<close>, \<open>user\<close>), the browser's \<^verbatim>\<open>localStorage\<close>,
  \<^verbatim>\<open>window.location.href\<close>, and the network trace.
\<close>

record World =
  tokens :: "AuthTokens option"
  user :: "User option"
  localStorage :: "string \<rightharpoonup> string"
  href :: string
  trace :: "event list"

definition storeTokens :: "AuthTokens \<Rightarrow> World \<Rightarrow> World" where
  "storeTokens t w =
     w\<lparr>localStorage := (localStorage w)(''access_token'' \<mapsto> access t, ''refresh_token'' \<mapsto> refresh t),
       tokens := Some t\<rparr>"

definition loadTokensFromStorage :: "World \<Rightarrow> World" where
  "loadTokensFromStorage w =
     (case or_null (localStorage w ''access_token'') of
        None \<Rightarrow> w
      | Some accessToken \<Rightarrow>
          (case or_null (localStorage w ''refresh_token'') of
             None \<Rightarrow> w
           | Some refreshToken \<Rightarrow>
               w\<lparr>tokens := Some \<lparr>access = accessToken, refresh = refreshToken\<rparr>\<rparr>))"

text \<open>The private constructor: both fields start as \<open>null\<close>, then the tokens are loaded.\<close>

definition new_AuthService :: "(string \<rightharpoonup> string) \<Rightarrow> string \<Rightarrow> World" where
  "new_AuthService storage location =
     loadTokensFromStorage
       \<lparr>tokens = None, user = None, localStorage = storage, href = location, trace = []\<rparr>"

definition getAccessToken :: "World \<Rightarrow> string option" where
  "getAccessToken w = or_null (map_option access (tokens w))"

definition getRefreshToken :: "World \<Rightarrow> string option" where
  "getRefreshToken w = or_null (map_option refresh (tokens w))"

definition isAuthenticated :: "World \<Rightarrow> bool" where
  "isAuthenticated w = (case tokens w of None \<Rightarrow> False | Some t \<Rightarrow> access t \<noteq> [])"

text \<open>
  \<^verbatim>\<open>JSON.stringify\<close> and \<^verbatim>\<open>JSON.parse\<close> are browser built-ins and are taken as
  parameters. \<open>parse s\<close> is \<open>None\<close> when parsing throws, \<open>Some None\<close> when the text
  parses to \<open>null\<close>, and \<open>Some (Some u)\<close> when it parses to a user object.
\<close>

definition setUser :: "(User \<Rightarrow> string) \<Rightarrow> User \<Rightarrow> World \<Rightarrow> World" where
  "setUser stringify u w =
     w\<lparr>user := Some u, localStorage := (localStorage w)(''user'' \<mapsto> stringify u)\<rparr>"

definition getUser :: "(string \<Rightarrow> User option option) \<Rightarrow> World \<Rightarrow> User option \<times> World" where
  "getUser parse w =
     (case user w of
        Some u \<Rightarrow> (Some u, w)
      | None \<Rightarrow>
          (case or_null (localStorage w ''user'') of
             None \<Rightarrow> (None, w)
           | Some userStr \<Rightarrow>
               (case parse userStr of
                  None \<Rightarrow> (None, w\<lparr>user := None\<rparr>)
                | Some parsed \<Rightarrow> (parsed, w\<lparr>user := parsed\<rparr>))))"

definition logout :: "World \<Rightarrow> World" where
  "logout w =
     w\<lparr>tokens := None, user := None,
       localStorage := (localStorage w)(''access_token'' := None, ''refresh_token'' := None,
                                        ''user'' := None)\<rparr>"

definition getAuthHeader :: "World \<Rightarrow> (string \<rightharpoonup> string)" where
  "getAuthHeader w =
     (case getAccessToken w of
        Some token \<Rightarrow> [''Authorization'' \<mapsto> ''Bearer '' @ token]
      | None \<Rightarrow> Map.empty)"

subsection \<open>Calls of the authentication endpoints\<close>

text \<open>
  The outcome of one \<^verbatim>\<open>fetch\<close> followed by \<^verbatim>\<open>response.json()\<close>: the fetch itself
  rejects (\<open>FetchFailed\<close>), or it yields a response whose \<^verbatim>\<open>ok\<close> flag is false or true.
  The body is \<open>None\<close> when \<^verbatim>\<open>response.json()\<close> rejects. The body of a response that is
  not ok is any JSON value. The body of an ok response has the shape the code declares:
  an \<^verbatim>\<open>AuthResponse\<close>, or a refresh body with the text \<^verbatim>\<open>access\<close> (the field
  \<open>new_access\<close> below).
\<close>

datatype ('e, 'a) fetched = FetchFailed | NotOk "'e option" | Ok "'a option"

record RefreshData =
  new_access :: string

text \<open>
  The exceptions an operation can throw: an \<^verbatim>\<open>Error\<close> made by the code with its
  message, the \<^verbatim>\<open>SyntaxError\<close> of a body that is not JSON, the \<^verbatim>\<open>TypeError\<close> of a
  fetch that fails, and the \<^verbatim>\<open>TypeError\<close> of reading a property of \<open>null\<close>.
\<close>

datatype exn = Error string | JsonSyntaxError | FetchTypeError | NullTypeError

text \<open>
  \<^verbatim>\<open>throw new Error(errorData.name || fallback)\<close>, the statement the three
  sign-in operations share, as the exception it throws.
\<close>

definition throw_error :: "(number \<Rightarrow> string) \<Rightarrow> json \<Rightarrow> string \<Rightarrow> string \<Rightarrow> exn" where
  "throw_error number_to_string errorData name fallback =
     (case errorData of
        JNull \<Rightarrow> NullTypeError
      | _ \<Rightarrow>
          (case own_property errorData name of
             None \<Rightarrow> Error fallback
           | Some v \<Rightarrow>
               if truthy v then Error (to_string number_to_string v) else Error fallback))"

definition login ::
  "(User \<Rightarrow> string) \<Rightarrow> (number \<Rightarrow> string) \<Rightarrow>
     (string \<Rightarrow> string \<Rightarrow> (json, AuthResponse) fetched) \<Rightarrow>
     string \<Rightarrow> string \<Rightarrow> World \<Rightarrow> World \<times> (exn + AuthResponse)" where
  "login stringify number_to_string endpoint name password w =
     (case endpoint name password of
        FetchFailed \<Rightarrow> (w, Inl FetchTypeError)
      | NotOk None \<Rightarrow> (w, Inl JsonSyntaxError)
      | NotOk (Some errorData) \<Rightarrow>
          (w, Inl (throw_error number_to_string errorData ''detail'' ''Login failed''))
      | Ok None \<Rightarrow> (w, Inl JsonSyntaxError)
      | Ok (Some d) \<Rightarrow>
          (setUser stringify (resp_user d) (storeTokens (resp_tokens d) w), Inr d))"

record RegisterData =
  reg_username :: string
  reg_email :: string
  reg_password :: string
  reg_password_confirm :: string
  reg_first_name :: string
  reg_last_name :: string

definition register ::
  "(User \<Rightarrow> string) \<Rightarrow> (number \<Rightarrow> string) \<Rightarrow>
     (RegisterData \<Rightarrow> (json, AuthResponse) fetched) \<Rightarrow>
     RegisterData \<Rightarrow> World \<Rightarrow> World \<times> (exn + AuthResponse)" where
  "register stringify number_to_string endpoint userData w =
     (case endpoint userData of
        FetchFailed \<Rightarrow> (w, Inl FetchTypeError)
      | NotOk None \<Rightarrow> (w, Inl JsonSyntaxError)
      | NotOk (Some errorData) \<Rightarrow>
          (w, Inl (throw_error number_to_string errorData ''detail'' ''Registration failed''))
      | Ok None \<Rightarrow> (w, Inl JsonSyntaxError)
      | Ok (Some d) \<Rightarrow>
          (setUser stringify (resp_user d) (storeTokens (resp_tokens d) w), Inr d))"

definition googleLogin ::
  "(User \<Rightarrow> string) \<Rightarrow> (number \<Rightarrow> string) \<Rightarrow>
     (string \<Rightarrow> (json, AuthResponse) fetched) \<Rightarrow>
     string \<Rightarrow> World \<Rightarrow> World \<times> (exn + AuthResponse)" where
  "googleLogin stringify number_to_string endpoint credential w =
     (case endpoint credential of
        FetchFailed \<Rightarrow> (w, Inl FetchTypeError)
      | NotOk None \<Rightarrow> (w, Inl JsonSyntaxError)
      | NotOk (Some errorData) \<Rightarrow>
          (w, Inl (throw_error number_to_string errorData ''error'' ''Google login failed''))
      | Ok None \<Rightarrow> (w, Inl JsonSyntaxError)
      | Ok (Some d) \<Rightarrow>
          (setUser stringify (resp_user d) (storeTokens (resp_tokens d) w), Inr d))"

text \<open>
  \<^verbatim>\<open>refreshAccessToken\<close> returns a Boolean and never throws: the \<^verbatim>\<open>try\<close> block
  catches a rejected fetch and a rejected \<^verbatim>\<open>response.json()\<close>. No request is made when
  no refresh token is stored.
\<close>

definition refreshAccessToken ::
  "(string \<Rightarrow> (json, RefreshData) fetched) \<Rightarrow> World \<Rightarrow> bool \<times> World" where
  "refreshAccessToken endpoint w =
     (case getRefreshToken w of
        None \<Rightarrow> (False, w)
      | Some refreshToken \<Rightarrow>
          (let w1 = w\<lparr>trace := trace w @ [RefreshPost refreshToken]\<rparr> in
           case endpoint refreshToken of
             FetchFailed \<Rightarrow> (False, w1)
           | NotOk _ \<Rightarrow> (False, w1)
           | Ok None \<Rightarrow> (False, w1)
           | Ok (Some d) \<Rightarrow>
               (True, storeTokens \<lparr>access = new_access d, refresh = refreshToken\<rparr> w1)))"

text \<open>
  The stored copies agree: when the service holds tokens, \<^verbatim>\<open>localStorage\<close> holds the
  same two texts.
\<close>

definition tokens_synced :: "World \<Rightarrow> bool" where
  "tokens_synced w =
     (case tokens w of
        None \<Rightarrow> True
      | Some t \<Rightarrow> localStorage w ''access_token'' = Some (access t) \<and>
                  localStorage w ''refresh_token'' = Some (refresh t))"

section \<open>The authentication hook (hooks/useAuth.ts)\<close>

text \<open>
  The hook keeps three pieces of component state. Its \<^verbatim>\<open>user\<close> and
  \<^verbatim>\<open>isAuthenticated\<close> carry a prefix, the service having members of these names.
\<close>

record AuthHook =
  hook_user :: "User option"
  hook_isAuthenticated :: bool
  isLoading :: bool

definition useAuth_logout :: "World \<times> AuthHook \<Rightarrow> World \<times> AuthHook" where
  "useAuth_logout s =
     (logout (fst s), (snd s)\<lparr>hook_user := None, hook_isAuthenticated := False\<rparr>)"

text \<open>
  \<^verbatim>\<open>refreshToken\<close> of the hook. Its \<^verbatim>\<open>catch\<close> branch is never taken, since
  \<^verbatim>\<open>refreshAccessToken\<close> does not throw.
\<close>

definition useAuth_refreshToken ::
  "(string \<Rightarrow> (json, RefreshData) fetched) \<Rightarrow> World \<times> AuthHook \<Rightarrow>
     bool \<times> (World \<times> AuthHook)" where
  "useAuth_refreshToken endpoint s =
     (let (success, w1) = refreshAccessToken endpoint (fst s) in
      if \<not> success then (success, useAuth_logout (w1, snd s))
      else (success, (w1, snd s)))"

section \<open>The HTTP client (services/api.ts)\<close>

text \<open>
  A response of the HTTP library (its \<^verbatim>\<open>data\<close> is opaque here and called \<open>body\<close>) and
  the error object the library rejects with: a message of the library's making, the
  response when there was one, and the configuration of the request that failed.
\<close>

record AxiosResponse =
  status :: nat
  body :: string

record AxiosError =
  err_message :: string
  response :: "AxiosResponse option"
  config :: RequestConfig

text \<open>
  What the network does with a request: the library resolves with a response, or rejects
  with a message and possibly a response. The network is an input of the model: how the
  server answers a request and a refresh POST may depend on everything that happened
  before (the trace so far).
\<close>

datatype outcome = Resolve AxiosResponse | Reject string "AxiosResponse option"

record Env =
  adapter :: "event list \<Rightarrow> RequestConfig \<Rightarrow> outcome"
  refresh_endpoint :: "event list \<Rightarrow> string \<Rightarrow> (json, RefreshData) fetched"

text \<open>
  The result of a call: the state afterwards and how the promise settled, rejected with an
  error (\<open>Inl\<close>) or resolved with a response (\<open>Inr\<close>); \<open>None\<close> when it has not settled.
\<close>

type_synonym api_result = "World \<times> (AxiosError + AxiosResponse) option"

text \<open>The request interceptor.\<close>

definition request_interceptor :: "World \<Rightarrow> RequestConfig \<Rightarrow> RequestConfig" where
  "request_interceptor w cfg =
     (case getAccessToken w of
        Some token \<Rightarrow> cfg\<lparr>headers := (headers cfg)(''Authorization'' \<mapsto> ''Bearer '' @ token)\<rparr>
      | None \<Rightarrow> cfg)"

text \<open>
  The error handler of the response interceptor. \<open>api_retry\<close> stands for the call
  \<^verbatim>\<open>api(originalRequest)\<close>, which sends the request through the same client again.
\<close>

definition response_interceptor_rejected ::
  "(World \<Rightarrow> RequestConfig \<Rightarrow> api_result) \<Rightarrow> Env \<Rightarrow> World \<Rightarrow> AxiosError \<Rightarrow> api_result" where
  "response_interceptor_rejected api_retry env w err =
     (if map_option status (response err) = Some 401 then
        (let (refreshed, w1) = refreshAccessToken (refresh_endpoint env (trace w)) w in
         if refreshed then
           (let originalRequest =
                  (config err)\<lparr>headers := (headers (config err))
                     (''Authorization'' \<mapsto> ''Bearer '' @ template (getAccessToken w1))\<rparr>
            in api_retry w1 originalRequest)
         else ((logout w1)\<lparr>href := ''/login''\<rparr>, Some (Inl err)))
      else (w, Some (Inl err)))"

text \<open>
  One call of the client: the request interceptor, the network, the response interceptor.
  The call may go on for ever (a request that is answered 401 after every refresh), so
  the first argument bounds the number of requests put on the wire: when the bound is
  reached the run is cut there, with the state at that point and no settlement.
\<close>

primrec api :: "nat \<Rightarrow> Env \<Rightarrow> World \<Rightarrow> RequestConfig \<Rightarrow> api_result" where
  "api 0 env w cfg = (w, None)"
| "api (Suc n) env w cfg =
     (let sent = request_interceptor w cfg;
          w1 = w\<lparr>trace := trace w @ [Sent sent]\<rparr>
      in case adapter env (trace w1) sent of
           Resolve r \<Rightarrow> (w1\<lparr>trace := trace w1 @ [Resolved (status r)]\<rparr>, Some (Inr r))
         | Reject msg resp \<Rightarrow>
             response_interceptor_rejected (api n env) env
               (w1\<lparr>trace := trace w1 @ [Rejected (map_option status resp)]\<rparr>)
               \<lparr>err_message = msg, response = resp, config = sent\<rparr>)"

text \<open>The instance's default headers, and the five generic request functions.\<close>

definition default_headers :: "string \<rightharpoonup> string" where
  "default_headers = [''Content-Type'' \<mapsto> ''application/json'']"

definition response_data :: "api_result \<Rightarrow> World \<times> (AxiosError + string) option" where
  "response_data res = (fst res, map_option (map_sum (\<lambda>e. e) body) (snd res))"

definition apiService_get ::
  "nat \<Rightarrow> Env \<Rightarrow> World \<Rightarrow> string \<Rightarrow> string option \<Rightarrow> World \<times> (AxiosError + string) option" where
  "apiService_get n env w endpoint ps =
     response_data (api n env w
       \<lparr>http_method = ''get'', url = endpoint, params = ps, payload = None,
        headers = default_headers\<rparr>)"

definition apiService_post ::
  "nat \<Rightarrow> Env \<Rightarrow> World \<Rightarrow> string \<Rightarrow> string option \<Rightarrow> World \<times> (AxiosError + string) option" where
  "apiService_post n env w endpoint d =
     response_data (api n env w
       \<lparr>http_method = ''post'', url = endpoint, params = None, payload = d,
        headers = default_headers\<rparr>)"

definition apiService_put ::
  "nat \<Rightarrow> Env \<Rightarrow> World \<Rightarrow> string \<Rightarrow> string option \<Rightarrow> World \<times> (AxiosError + string) option" where
  "apiService_put n env w endpoint d =
     response_data (api n env w
       \<lparr>http_method = ''put'', url = endpoint, params = None, payload = d,
        headers = default_headers\<rparr>)"

definition apiService_patch ::
  "nat \<Rightarrow> Env \<Rightarrow> World \<Rightarrow> string \<Rightarrow> string option \<Rightarrow> World \<times> (AxiosError + string) option" where
  "apiService_patch n env w endpoint d =
     response_data (api n env w
       \<lparr>http_method = ''patch'', url = endpoint, params = None, payload = d,
        headers = default_headers\<rparr>)"

definition apiService_delete ::
  "nat \<Rightarrow> Env \<Rightarrow> World \<Rightarrow> string \<Rightarrow> World \<times> (AxiosError + string) option" where
  "apiService_delete n env w endpoint =
     response_data (api n env w
       \<lparr>http_method = ''delete'', url = endpoint, params = None, payload = None,
        headers = default_headers\<rparr>)"

section \<open>Form validation (utils/validation.ts)\<close>

record ValidationResult =
  isValid :: bool
  errors :: "string list"

subsection \<open>Regular expressions\<close>

text \<open>
  The regular expressions of the source are kept as data and matched by derivatives.
  A character is a code unit below 256; the white space class \<^verbatim>\<open>\s\<close> is cut to that
  range.
\<close>

datatype regex =
    Never
  | Empty
  | Chars "char \<Rightarrow> bool"
  | Alt regex regex
  | Seq regex regex
  | Star regex

primrec nullable :: "regex \<Rightarrow> bool" where
  "nullable Never = False"
| "nullable Empty = True"
| "nullable (Chars p) = False"
| "nullable (Alt r s) = (nullable r \<or> nullable s)"
| "nullable (Seq r s) = (nullable r \<and> nullable s)"
| "nullable (Star r) = True"

primrec deriv :: "char \<Rightarrow> regex \<Rightarrow> regex" where
  "deriv c Never = Never"
| "deriv c Empty = Never"
| "deriv c (Chars p) = (if p c then Empty else Never)"
| "deriv c (Alt r s) = Alt (deriv c r) (deriv c s)"
| "deriv c (Seq r s) =
     (if nullable r then Alt (Seq (deriv c r) s) (deriv c s) else Seq (deriv c r) s)"
| "deriv c (Star r) = Seq (deriv c r) (Star r)"

definition matches :: "regex \<Rightarrow> string \<Rightarrow> bool" where
  "matches r s = nullable (foldl (\<lambda>q c. deriv c q) r s)"

definition Plus :: "regex \<Rightarrow> regex" where
  "Plus r = Seq r (Star r)"

text \<open>\<^verbatim>\<open>/^r$/.test(s)\<close> matches the whole text; \<^verbatim>\<open>/r/.test(s)\<close> looks for a match anywhere.\<close>

definition test_whole :: "regex \<Rightarrow> string \<Rightarrow> bool" where
  "test_whole r s = matches r s"

definition test_anywhere :: "regex \<Rightarrow> string \<Rightarrow> bool" where
  "test_anywhere r s =
     matches (Seq (Star (Chars (\<lambda>c. True))) (Seq r (Star (Chars (\<lambda>c. True))))) s"

definition is_space :: "char \<Rightarrow> bool" where
  "is_space c = ((of_char c :: nat) \<in> set [9, 10, 11, 12, 13, 32, 160])"

definition in_range :: "char \<Rightarrow> char \<Rightarrow> char \<Rightarrow> bool" where
  "in_range lo hi c = ((of_char lo :: nat) \<le> of_char c \<and> (of_char c :: nat) \<le> of_char hi)"

definition trim :: "string \<Rightarrow> string" where
  "trim s = rev (dropWhile is_space (rev (dropWhile is_space s)))"

subsection \<open>The validators\<close>

definition emailRegex :: regex where
  "emailRegex =
     (let part = Plus (Chars (\<lambda>c. \<not> is_space c \<and> c \<noteq> CHR ''@'')) in
      Seq part (Seq (Chars (\<lambda>c. c = CHR ''@''))
        (Seq part (Seq (Chars (\<lambda>c. c = CHR ''.'')) part))))"

definition validateEmail :: "string \<Rightarrow> ValidationResult" where
  "validateEmail address =
     (let valid = test_whole emailRegex address in
      \<lparr>isValid = valid,
       errors = (if valid then [] else [''Please enter a valid email address''])\<rparr>)"

definition validatePassword :: "string \<Rightarrow> ValidationResult" where
  "validatePassword password =
     (let e0 = [];
          e1 = (if length password < 8
                then e0 @ [''Password must be at least 8 characters long''] else e0);
          e2 = (if \<not> test_anywhere (Chars (in_range CHR ''A'' CHR ''Z'')) password
                then e1 @ [''Password must contain at least one uppercase letter''] else e1);
          e3 = (if \<not> test_anywhere (Chars (in_range CHR ''a'' CHR ''z'')) password
                then e2 @ [''Password must contain at least one lowercase letter''] else e2);
          e4 = (if \<not> test_anywhere (Chars (in_range CHR ''0'' CHR ''9'')) password
                then e3 @ [''Password must contain at least one number''] else e3)
      in \<lparr>isValid = (length e4 = 0), errors = e4\<rparr>)"

definition usernameRegex :: regex where
  "usernameRegex =
     Plus (Chars (\<lambda>c. in_range CHR ''a'' CHR ''z'' c \<or> in_range CHR ''A'' CHR ''Z'' c \<or>
                      in_range CHR ''0'' CHR ''9'' c \<or> c = CHR ''_''))"

definition validateUsername :: "string \<Rightarrow> ValidationResult" where
  "validateUsername name =
     (let e0 = [];
          e1 = (if length name < 3
                then e0 @ [''Username must be at least 3 characters long''] else e0);
          e2 = (if length name > 30
                then e1 @ [''Username must be less than 30 characters''] else e1);
          e3 = (if \<not> test_whole usernameRegex name
                then e2 @ [''Username can only contain letters, numbers, and underscores'']
                else e2)
      in \<lparr>isValid = (length e3 = 0), errors = e3\<rparr>)"

definition validateProductTitle :: "string \<Rightarrow> ValidationResult" where
  "validateProductTitle t =
     (let e0 = [];
          e1 = (if trim t = [] then e0 @ [''Product title is required''] else e0);
          e2 = (if length t < 3
                then e1 @ [''Product title must be at least 3 characters long''] else e1);
          e3 = (if length t > 200
                then e2 @ [''Product title must be less than 200 characters''] else e2)
      in \<lparr>isValid = (length e3 = 0), errors = e3\<rparr>)"

definition validateProductDescription :: "string \<Rightarrow> ValidationResult" where
  "validateProductDescription d =
     (let e0 = [];
          e1 = (if trim d = [] then e0 @ [''Product description is required''] else e0);
          e2 = (if length d < 50
                then e1 @ [''Product description must be at least 50 characters long'']
                else e1);
          e3 = (if length d > 2000
                then e2 @ [''Product description must be less than 2000 characters'']
                else e2)
      in \<lparr>isValid = (length e3 = 0), errors = e3\<rparr>)"

text \<open>
  \<^verbatim>\<open>new URL(url)\<close> is the browser's parser; whether it accepts a text is a parameter.
\<close>

definition validateUrl :: "(string \<Rightarrow> bool) \<Rightarrow> string \<Rightarrow> ValidationResult" where
  "validateUrl url_parses u =
     (if url_parses u then \<lparr>isValid = True, errors = []\<rparr>
      else \<lparr>isValid = False, errors = [''Please enter a valid URL'']\<rparr>)"

text \<open>
  A file has a size and a media type (\<^verbatim>\<open>size\<close> and \<^verbatim>\<open>type\<close> in the source). Both
  options may be left out. \<^verbatim>\<open>formatFileSize\<close> computes with floating point logarithms;
  the text it yields is a parameter.
\<close>

record File =
  file_size :: int
  file_type :: string

record FileOptions =
  maxSize :: "int option"
  allowedTypes :: "string list option"

definition validateFile :: "(int \<Rightarrow> string) \<Rightarrow> File \<Rightarrow> FileOptions \<Rightarrow> ValidationResult" where
  "validateFile formatFileSize file options =
     (let max_size = (case maxSize options of None \<Rightarrow> 10 * 1024 * 1024 | Some m \<Rightarrow> m);
          allowed = (case allowedTypes options of
                       None \<Rightarrow> [''image/jpeg'', ''image/png'', ''image/gif'', ''image/webp'']
                     | Some ts \<Rightarrow> ts);
          e0 = [];
          e1 = (if file_size file > max_size
                then e0 @ [''File size must be less than '' @ formatFileSize max_size]
                else e0);
          e2 = (if \<not> List.member allowed (file_type file)
                then e1 @ [''File type '' @ file_type file @ '' is not supported'']
                else e1)
      in \<lparr>isValid = (length e2 = 0), errors = e2\<rparr>)"

text \<open>
  \<^verbatim>\<open>validateForm\<close> walks the entries of the form data in order; a field with no rule
  is skipped.
\<close>

fun validateForm_loop ::
  "(string \<rightharpoonup> ('v \<Rightarrow> ValidationResult)) \<Rightarrow> string list \<Rightarrow> (string \<times> 'v) list \<Rightarrow> string list" where
  "validateForm_loop rules es [] = es"
| "validateForm_loop rules es ((field, v) # entries) =
     (case rules field of
        None \<Rightarrow> validateForm_loop rules es entries
      | Some rule \<Rightarrow>
          (let result = rule v in
           if \<not> isValid result then validateForm_loop rules (es @ errors result) entries
           else validateForm_loop rules es entries))"

definition validateForm ::
  "(string \<times> 'v) list \<Rightarrow> (string \<rightharpoonup> ('v \<Rightarrow> ValidationResult)) \<Rightarrow> ValidationResult" where
  "validateForm entries rules =
     (let es = validateForm_loop rules [] entries in
      \<lparr>isValid = (length es = 0), errors = es\<rparr>)"

definition validateSearchQuery :: "string \<Rightarrow> ValidationResult" where
  "validateSearchQuery query =
     (let e0 = [];
          e1 = (if trim query = [] then e0 @ [''Search query is required''] else e0);
          e2 = (if length query < 2
                then e1 @ [''Search query must be at least 2 characters long''] else e1);
          e3 = (if length query > 100
                then e2 @ [''Search query must be less than 100 characters''] else e2)
      in \<lparr>isValid = (length e3 = 0), errors = e3\<rparr>)"

text \<open>The invariant of a validation result.\<close>

definition consistent :: "ValidationResult \<Rightarrow> bool" where
  "consistent r = (isValid r = (errors r = []))"

section \<open>The product list (hooks/useProducts.ts)\<close>

text \<open>
  A product as the hook declares it. \<^verbatim>\<open>id\<close> and \<^verbatim>\<open>image\<close> carry a prefix; the
  entries of \<^verbatim>\<open>comments\<close> have the type \<^verbatim>\<open>any\<close> and are left polymorphic. The id
  and the counts are numbers.
\<close>

record Author =
  author_username :: string
  author_first_name :: "string option"
  author_last_name :: "string option"

datatype Category = CategoryObject string | CategoryName string

record 'c Product =
  product_id :: number
  title :: string
  short_description :: string
  description :: "string option"
  category :: Category
  author :: Author
  product_image :: "string option"
  website_url :: "string option"
  demo_url :: "string option"
  upvote_count :: number
  view_count :: number
  comment_count :: number
  is_upvoted :: bool
  created_at :: string
  tags :: "string list option"
  comments :: "'c list option"

text \<open>
  \<^verbatim>\<open>upvoteProduct\<close>: the result of the service call is an input; when the call throws,
  the error is thrown on and the list stays as it is. The pair is the list afterwards and
  the outcome of the call.
\<close>

definition upvoteProduct ::
  "(number \<Rightarrow> 'e + 'r) \<Rightarrow> number \<Rightarrow> 'c Product list \<Rightarrow>
     'c Product list \<times> ('e + unit)" where
  "upvoteProduct service productId products =
     (case service productId of
        Inl err \<Rightarrow> (products, Inl err)
      | Inr _ \<Rightarrow>
          (map (\<lambda>product.
                  if strict_equals (product_id product) productId
                  then product\<lparr>is_upvoted := \<not> is_upvoted product,
                               upvote_count :=
                                 (if is_upvoted product
                                  then js_subtract (upvote_count product) (Finite 1)
                                  else js_add (upvote_count product) (Finite 1))\<rparr>
                  else product) products,
           Inr ()))"

section \<open>Reading the network trace\<close>

text \<open>
  Three readings of what the network did with a request: whether the reply was rejected
  with status 401, the event it leaves in the trace, and how it settles the promise of the
  library (the error carries the configuration that was sent).
\<close>

definition answered_401 :: "outcome \<Rightarrow> bool" where
  "answered_401 out =
     (case out of Resolve r \<Rightarrow> False | Reject msg resp \<Rightarrow> map_option status resp = Some 401)"

definition reply_event :: "outcome \<Rightarrow> event" where
  "reply_event out =
     (case out of
        Resolve r \<Rightarrow> Resolved (status r)
      | Reject msg resp \<Rightarrow> Rejected (map_option status resp))"

definition settled :: "RequestConfig \<Rightarrow> outcome \<Rightarrow> AxiosError + AxiosResponse" where
  "settled sent out =
     (case out of
        Resolve r \<Rightarrow> Inr r
      | Reject msg resp \<Rightarrow> Inl \<lparr>err_message = msg, response = resp, config = sent\<rparr>)"

text \<open>The refresh tokens posted, the requests put on the wire, the number of 401 replies.\<close>

fun refresh_posts :: "event list \<Rightarrow> string list" where
  "refresh_posts [] = []"
| "refresh_posts (RefreshPost rt # evs) = rt # refresh_posts evs"
| "refresh_posts (ev # evs) = refresh_posts evs"

fun sent_requests :: "event list \<Rightarrow> RequestConfig list" where
  "sent_requests [] = []"
| "sent_requests (Sent cfg # evs) = cfg # sent_requests evs"
| "sent_requests (ev # evs) = sent_requests evs"

fun rejections_401 :: "event list \<Rightarrow> nat" where
  "rejections_401 [] = 0"
| "rejections_401 (Rejected st # evs) =
     (if st = Some 401 then Suc (rejections_401 evs) else rejections_401 evs)"
| "rejections_401 (ev # evs) = rejections_401 evs"

text \<open>
  A trace is reactive when every refresh POST in it comes directly after a reply that was
  rejected with status 401. The flag says whether the event before the list was such a
  reply.
\<close>

fun reactive :: "bool \<Rightarrow> event list \<Rightarrow> bool" where
  "reactive after_401 [] = True"
| "reactive after_401 (RefreshPost rt # evs) = (after_401 \<and> reactive False evs)"
| "reactive after_401 (Rejected st # evs) = reactive (st = Some 401) evs"
| "reactive after_401 (ev # evs) = reactive False evs"

text \<open>All stored credentials are gone, in the service and in \<^verbatim>\<open>localStorage\<close>.\<close>

definition credentials_cleared :: "World \<Rightarrow> bool" where
  "credentials_cleared w =
     (tokens w = None \<and> user w = None \<and> localStorage w ''access_token'' = None \<and>
      localStorage w ''refresh_token'' = None \<and> localStorage w ''user'' = None)"

text \<open>
  The ways a refresh can fail: no refresh token is stored, the fetch throws, the response
  is not ok, or its body cannot be read.
\<close>

definition refresh_fails :: "(string \<Rightarrow> (json, RefreshData) fetched) \<Rightarrow> World \<Rightarrow> bool" where
  "refresh_fails endpoint w =
     (case getRefreshToken w of
        None \<Rightarrow> True
      | Some rt \<Rightarrow> (case endpoint rt of Ok (Some d) \<Rightarrow> False | _ \<Rightarrow> True))"

text \<open>
  The states the program can be in: the service as its constructor leaves it, and every
  state that an operation of the service or a call of the HTTP client leads to from there.
\<close>

inductive reachable :: "World \<Rightarrow> bool" where
  start: "reachable (new_AuthService storage location)"
| after_login:
    "reachable w \<Longrightarrow>
       reachable (fst (login stringify number_to_string endpoint name password w))"
| after_register:
    "reachable w \<Longrightarrow>
       reachable (fst (register stringify number_to_string reg_endpoint userData w))"
| after_googleLogin:
    "reachable w \<Longrightarrow>
       reachable (fst (googleLogin stringify number_to_string google_endpoint credential w))"
| after_refresh: "reachable w \<Longrightarrow> reachable (snd (refreshAccessToken refresh_ep w))"
| after_logout: "reachable w \<Longrightarrow> reachable (logout w)"
| after_setUser: "reachable w \<Longrightarrow> reachable (setUser stringify u w)"
| after_getUser: "reachable w \<Longrightarrow> reachable (snd (getUser parse w))"
| after_request: "reachable w \<Longrightarrow> reachable (fst (api n env w cfg))"



section \<open>Sample data\<close>

text \<open>Concrete values at which the theorems below are instantiated.\<close>

definition sample_product :: "int \<Rightarrow> bool \<Rightarrow> int \<Rightarrow> unit Product" where
  "sample_product i up n =
     \<lparr>product_id = Finite (of_int i), title = ''Widget'', short_description = ''A widget'',
      description = None, category = CategoryName ''Tools'',
      author = \<lparr>author_username = ''ann'', author_first_name = None,
                author_last_name = None\<rparr>,
      product_image = None, website_url = None, demo_url = None,
      upvote_count = Finite (of_int n), view_count = Finite 0, comment_count = Finite 0,
      is_upvoted = up,
      created_at = ''2024-01-01'', tags = None, comments = None\<rparr>"

text \<open>A service that starts with the stored pair of tokens \<open>old\<close> and \<open>r\<close>.\<close>

definition sample_world :: World where
  "sample_world =
     new_AuthService [''access_token'' \<mapsto> ''old'', ''refresh_token'' \<mapsto> ''r''] ''/''"

definition refresh_ok :: "string \<Rightarrow> string \<Rightarrow> (json, RefreshData) fetched" where
  "refresh_ok a rt = Ok (Some \<lparr>new_access = a\<rparr>)"

text \<open>A request as \<^verbatim>\<open>apiService.get\<close> builds it, and the networks used below.\<close>

definition get_products :: RequestConfig where
  "get_products =
     \<lparr>http_method = ''get'', url = ''/products/products/'', params = None, payload = None,
      headers = default_headers\<rparr>"

definition unauthorized :: outcome where
  "unauthorized =
     Reject ''Request failed with status code 401'' (Some \<lparr>status = 401, body = []\<rparr>)"

definition server_error :: outcome where
  "server_error =
     Reject ''Request failed with status code 500''
       (Some \<lparr>status = 500, body = ''detail: Database is down''\<rparr>)"

text \<open>The server fails every request with status 500.\<close>

definition env_500 :: Env where
  "env_500 =
     \<lparr>adapter = (\<lambda>history cfg. server_error),
      refresh_endpoint = (\<lambda>history. refresh_ok ''new'')\<rparr>"

text \<open>
  The server answers the first \<open>k\<close> requests of a run with 401 and the next one with
  200; every refresh succeeds and issues the access token \<open>a\<close>.
\<close>

definition env_401_then_ok :: "nat \<Rightarrow> string \<Rightarrow> Env" where
  "env_401_then_ok k a =
     \<lparr>adapter = (\<lambda>history cfg.
                  if length (sent_requests history) \<le> k then unauthorized
                  else Resolve \<lparr>status = 200, body = ''ok''\<rparr>),
      refresh_endpoint = (\<lambda>history. refresh_ok a)\<rparr>"

text \<open>The server answers every request with 401, and every refresh succeeds.\<close>

definition env_always_401 :: Env where
  "env_always_401 =
     \<lparr>adapter = (\<lambda>history cfg. unauthorized),
      refresh_endpoint = (\<lambda>history. refresh_ok ''new'')\<rparr>"

text \<open>A refresh endpoint that turns every token down, and a server that uses it.\<close>

definition refresh_denied :: "string \<Rightarrow> (json, RefreshData) fetched" where
  "refresh_denied rt =
     NotOk (Some (JObject [''detail'' \<mapsto> JString ''Token is invalid or expired'']))"

definition env_401_denied :: Env where
  "env_401_denied =
     \<lparr>adapter = (\<lambda>history cfg. unauthorized),
      refresh_endpoint = (\<lambda>history. refresh_denied)\<rparr>"

text \<open>
  A signed-in user (the text stored for the user is cut down to the user name), and the
  state of a hook that shows this user.
\<close>

definition sample_user :: User where
  "sample_user =
     \<lparr>user_id = Finite 1, username = ''ann'', email = ''ann@example.org'', first_name = ''Ann'',
      last_name = ''Lee''\<rparr>"

definition signed_in :: World where
  "signed_in = setUser username sample_user sample_world"

definition sample_hook :: AuthHook where
  "sample_hook =
     \<lparr>hook_user = Some sample_user, hook_isAuthenticated = True, isLoading = False\<rparr>"






section \<open>Properties of the authentication service\<close>

lemma or_null_Some_iff: "or_null x = Some s \<longleftrightarrow> x = Some s \<and> s \<noteq> []"
  by (cases x) (auto simp: or_null_def)

lemma tokens_synced_new: "tokens_synced (new_AuthService storage location)"
  by (auto simp: new_AuthService_def loadTokensFromStorage_def tokens_synced_def
        or_null_Some_iff split: option.splits)

lemma tokens_synced_storeTokens: "tokens_synced (storeTokens t w)"
  by (simp add: storeTokens_def tokens_synced_def)

lemma tokens_synced_logout: "tokens_synced (logout w)"
  by (simp add: logout_def tokens_synced_def)

lemma tokens_synced_setUser: "tokens_synced w \<Longrightarrow> tokens_synced (setUser stringify u w)"
  by (simp add: setUser_def tokens_synced_def split: option.splits)

lemma tokens_synced_getUser: "tokens_synced w \<Longrightarrow> tokens_synced (snd (getUser parse w))"
  by (auto simp: getUser_def tokens_synced_def split: option.splits)

lemma tokens_synced_login:
  "tokens_synced w \<Longrightarrow>
     tokens_synced (fst (login stringify number_to_string endpoint name password w))"
  by (auto simp: login_def tokens_synced_setUser tokens_synced_storeTokens
        split: fetched.splits option.splits)

lemma tokens_synced_register:
  "tokens_synced w \<Longrightarrow>
     tokens_synced (fst (register stringify number_to_string endpoint userData w))"
  by (auto simp: register_def tokens_synced_setUser tokens_synced_storeTokens
        split: fetched.splits option.splits)

lemma tokens_synced_googleLogin:
  "tokens_synced w \<Longrightarrow>
     tokens_synced (fst (googleLogin stringify number_to_string endpoint credential w))"
  by (auto simp: googleLogin_def tokens_synced_setUser tokens_synced_storeTokens
        split: fetched.splits option.splits)

lemma tokens_synced_trace: "tokens_synced (w\<lparr>trace := evs\<rparr>) = tokens_synced w"
  by (simp add: tokens_synced_def split: option.splits)

lemma tokens_synced_refreshAccessToken:
  "tokens_synced w \<Longrightarrow> tokens_synced (snd (refreshAccessToken endpoint w))"
  by (auto simp: refreshAccessToken_def Let_def tokens_synced_storeTokens tokens_synced_trace
        split: fetched.splits option.splits)

lemma sample_world_eq:
  "sample_world =
     \<lparr>tokens = Some \<lparr>access = ''old'', refresh = ''r''\<rparr>, user = None,
      localStorage = [''access_token'' \<mapsto> ''old'', ''refresh_token'' \<mapsto> ''r''],
      href = ''/'', trace = []\<rparr>"
  by (simp add: sample_world_def new_AuthService_def loadTokensFromStorage_def or_null_def)

lemma refreshAccessToken_True:
  assumes "refreshAccessToken endpoint w = (True, w')"
  obtains rt d where "getRefreshToken w = Some rt" and "endpoint rt = Ok (Some d)"
    and "w' = storeTokens \<lparr>access = new_access d, refresh = rt\<rparr>
                (w\<lparr>trace := trace w @ [RefreshPost rt]\<rparr>)"
  using assms
  by (auto simp: refreshAccessToken_def Let_def split: option.splits fetched.splits)

lemma refreshAccessToken_False:
  assumes "refreshAccessToken endpoint w = (False, w')"
  shows "tokens w' = tokens w \<and> user w' = user w \<and> localStorage w' = localStorage w \<and>
         href w' = href w"
  using assms
  by (auto simp: refreshAccessToken_def Let_def split: option.splits fetched.splits)

section \<open>Properties of form validation\<close>

text \<open>
  C8. Every validator returns a result whose \<^verbatim>\<open>isValid\<close> flag is true exactly when its
  list of errors is empty, for every input (and every URL parser, size formatter and set
  of form rules).
\<close>

theorem validation_results_consistent:
  "consistent (validateEmail address) \<and>
   consistent (validatePassword password) \<and>
   consistent (validateUsername name) \<and>
   consistent (validateProductTitle t) \<and>
   consistent (validateProductDescription d) \<and>
   consistent (validateUrl url_parses u) \<and>
   consistent (validateFile formatFileSize file options) \<and>
   consistent (validateForm entries rules) \<and>
   consistent (validateSearchQuery query)"
proof -
  have 1: "consistent (validateEmail address)"
    by (simp add: consistent_def validateEmail_def Let_def)
  have 2: "consistent (validatePassword password)"
    by (simp add: consistent_def validatePassword_def Let_def)
  have 3: "consistent (validateUsername name)"
    by (simp add: consistent_def validateUsername_def Let_def)
  have 4: "consistent (validateProductTitle t)"
    by (simp add: consistent_def validateProductTitle_def Let_def)
  have 5: "consistent (validateProductDescription d)"
    by (simp add: consistent_def validateProductDescription_def Let_def)
  have 6: "consistent (validateUrl url_parses u)"
    by (simp add: consistent_def validateUrl_def)
  have 7: "consistent (validateFile formatFileSize file options)"
    by (simp add: consistent_def validateFile_def Let_def)
  have 8: "consistent (validateForm entries rules)"
    by (simp add: consistent_def validateForm_def Let_def)
  have 9: "consistent (validateSearchQuery query)"
    by (simp add: consistent_def validateSearchQuery_def Let_def)
  from 1 2 3 4 5 6 7 8 9 show ?thesis by blast
qed

section \<open>Properties of logout\<close>

text \<open>
  C9. From any state, \<^verbatim>\<open>logout\<close> leads to a state in which \<^verbatim>\<open>getAccessToken()\<close> and
  \<^verbatim>\<open>getRefreshToken()\<close> return \<open>null\<close>, \<^verbatim>\<open>isAuthenticated()\<close> returns false and
  \<^verbatim>\<open>getUser()\<close> returns \<open>null\<close> without changing the state; a second \<^verbatim>\<open>logout\<close>
  leaves that state as it is.
\<close>

theorem logout_idempotent:
  "getAccessToken (logout w) = None \<and>
   getRefreshToken (logout w) = None \<and>
   \<not> isAuthenticated (logout w) \<and>
   getUser parse (logout w) = (None, logout w) \<and>
   logout (logout w) = logout w"
  by (simp add: logout_def getAccessToken_def getRefreshToken_def isAuthenticated_def
        getUser_def or_null_def)

section \<open>Properties of numbers\<close>

text \<open>
  Rounding leaves an integer of magnitude up to \<open>2^53\<close> as it is, so adding one to an
  integer of magnitude below \<open>2^53\<close>, or taking one away, is exact.
\<close>

lemma pow2_nonneg: "0 \<le> e \<Longrightarrow> pow2 e = 2 ^ nat e"
  by (simp add: pow2_def)

lemma pow2_neg: "e \<le> 0 \<Longrightarrow> pow2 e = 1 / 2 ^ nat (- e)"
  by (cases "e = 0") (simp_all add: pow2_def)

lemma floor_log2_of_int:
  assumes "0 < m"
  shows "floor_log2 (of_int m) = bitlen m - 1"
proof -
  from assms have pos: "1 \<le> bitlen m"
    by (simp add: bitlen_ge_iff_power)
  have one: "bitlen 1 = 1"
    by (simp add: bitlen_alt_def)
  from bitlen_bounds [OF assms] have "(2::int) ^ nat (bitlen m - 1) \<le> m"
    by simp
  then have "(of_int ((2::int) ^ nat (bitlen m - 1)) :: rat) \<le> of_int m"
    by (simp only: of_int_le_iff)
  then have "\<not> (of_int m :: rat) < pow2 (bitlen m - 1)"
    using pos by (simp add: pow2_nonneg)
  then show ?thesis
    by (simp add: floor_log2_def one)
qed

lemma round_half_even_of_int: "round_half_even (of_int z) = z"
  by (simp add: round_half_even_def)

lemma round_double_of_int_small:
  assumes "m \<noteq> 0" and "\<bar>m\<bar> < 2 ^ 53"
  shows "round_double (of_int m) = Finite (of_int m)"
proof -
  from assms have pos: "0 < \<bar>m\<bar>"
    by simp
  from assms have len: "1 \<le> bitlen \<bar>m\<bar>" "bitlen \<bar>m\<bar> \<le> 53"
    by (simp_all add: bitlen_ge_iff_power bitlen_le_iff_power)
  define j where "j = nat (53 - bitlen \<bar>m\<bar>)"
  have "\<bar>of_int m :: rat\<bar> = of_int \<bar>m\<bar>"
    by simp
  then have k: "max (floor_log2 \<bar>of_int m\<bar> - 52) (- 1074) = - int j"
    using len by (simp only: floor_log2_of_int [OF pos]) (simp add: j_def)
  have p: "pow2 (- int j) = 1 / 2 ^ j"
    by (simp add: pow2_neg)
  have scaled: "(of_int m :: rat) / pow2 (- int j) = of_int (m * 2 ^ j)"
    by (simp add: p)
  have unscaled: "(of_int (m * 2 ^ j) :: rat) * pow2 (- int j) = of_int m"
    by (simp add: p)
  have "(of_int \<bar>m\<bar> :: rat) < of_int (2 ^ 53)"
    using assms by (simp only: of_int_less_iff)
  then have small: "\<not> pow2 1024 \<le> \<bar>(of_int m :: rat)\<bar>"
    by (simp add: pow2_def)
  from assms have "(of_int m :: rat) \<noteq> 0"
    by simp
  then show ?thesis
    using small
    by (simp add: round_double_def Let_def k scaled round_half_even_of_int unscaled
          del: of_int_mult of_int_power)
qed

lemma round_double_of_int:
  assumes "\<bar>m\<bar> \<le> 2 ^ 53"
  shows "round_double (of_int m) = Finite (of_int m)"
proof -
  consider "m = 0" | "m \<noteq> 0" "\<bar>m\<bar> < 2 ^ 53" | "m = 2 ^ 53" | "m = - (2 ^ 53)"
    using assms by linarith
  then show ?thesis
  proof cases
    case 1
    then show ?thesis by (simp add: round_double_def)
  next
    case 2
    then show ?thesis by (rule round_double_of_int_small)
  next
    case 3
    have "round_double (of_int (2 ^ 53)) = Finite (of_int (2 ^ 53))"
      by code_simp
    with 3 show ?thesis by simp
  next
    case 4
    have "round_double (of_int (- (2 ^ 53))) = Finite (of_int (- (2 ^ 53)))"
      by code_simp
    with 4 show ?thesis by simp
  qed
qed

lemma js_add_one:
  "\<bar>n\<bar> \<le> 2 ^ 53 - 1 \<Longrightarrow> js_add (Finite (of_int n)) (Finite 1) = Finite (of_int (n + 1))"
  using round_double_of_int [of "n + 1"] by simp

lemma js_subtract_one:
  "\<bar>n\<bar> \<le> 2 ^ 53 - 1 \<Longrightarrow>
     js_subtract (Finite (of_int n)) (Finite 1) = Finite (of_int (n - 1))"
  using round_double_of_int [of "n - 1"] by (simp add: js_subtract_def)

section \<open>Properties of the product list\<close>

lemma upvoteProduct_failed:
  "service productId = Inl err \<Longrightarrow>
     upvoteProduct service productId products = (products, Inl err)"
  by (simp add: upvoteProduct_def)

text \<open>
  An upvote of a product that was not upvoted and whose count is \<open>2^53\<close>: the flag is
  toggled and the count is the same number as before, since \<open>2^53 + 1\<close> is no double
  and the sum is rounded back.
\<close>

theorem upvote_at_two_to_53:
  "fst (upvoteProduct (\<lambda>i. (Inr () :: unit + unit)) (Finite 1)
          [sample_product 1 False (2 ^ 53)]) =
     [sample_product 1 True (2 ^ 53)] \<and>
   upvote_count (sample_product 1 True (2 ^ 53)) = upvote_count (sample_product 1 False (2 ^ 53)) \<and>
   upvote_count (sample_product 1 True (2 ^ 53)) \<noteq> Finite (2 ^ 53 + 1)"
proof -
  have "js_add (Finite (of_int (2 ^ 53))) (Finite 1) = Finite (of_int (2 ^ 53))"
    by code_simp
  then show ?thesis
    by (simp add: upvoteProduct_def sample_product_def strict_equals_def)
qed

text \<open>
  C10, as the code has it. After a successful upvote the list has the same length; at
  every position, a product whose id is strictly equal to the given one has its
  \<^verbatim>\<open>is_upvoted\<close> flag toggled and its \<^verbatim>\<open>upvote_count\<close> replaced by the sum of the
  count and one when it was not upvoted, and by the difference when it was, and is
  otherwise the same record; a product with another id is unchanged. When the count is an
  integer of magnitude at most \<open>2^53 - 1\<close>, the new count is that integer plus one,
  or minus one. When no product has the id, the list is unchanged.
\<close>

theorem upvoteProduct_frame:
  assumes "service productId = Inr r"
  shows "snd (upvoteProduct service productId products) = Inr () \<and>
         length (fst (upvoteProduct service productId products)) = length products \<and>
         (\<forall>i < length products.
            fst (upvoteProduct service productId products) ! i =
              (if strict_equals (product_id (products ! i)) productId
               then (products ! i)\<lparr>is_upvoted := \<not> is_upvoted (products ! i),
                      upvote_count :=
                        (if is_upvoted (products ! i)
                         then js_subtract (upvote_count (products ! i)) (Finite 1)
                         else js_add (upvote_count (products ! i)) (Finite 1))\<rparr>
               else products ! i)) \<and>
         (\<forall>i < length products. \<forall>n.
            strict_equals (product_id (products ! i)) productId \<and>
            upvote_count (products ! i) = Finite (of_int n) \<and> \<bar>n\<bar> \<le> 2 ^ 53 - 1 \<longrightarrow>
            upvote_count (fst (upvoteProduct service productId products) ! i) =
              Finite (of_int (n + (if is_upvoted (products ! i) then - 1 else 1)))) \<and>
         ((\<forall>p \<in> set products. \<not> strict_equals (product_id p) productId) \<longrightarrow>
            fst (upvoteProduct service productId products) = products)"
proof -
  let ?new = "fst (upvoteProduct service productId products)"
  have new: "?new =
      map (\<lambda>product.
             if strict_equals (product_id product) productId
             then product\<lparr>is_upvoted := \<not> is_upvoted product,
                    upvote_count :=
                      (if is_upvoted product
                       then js_subtract (upvote_count product) (Finite 1)
                       else js_add (upvote_count product) (Finite 1))\<rparr>
             else product) products"
    using assms by (simp add: upvoteProduct_def)
  have 1: "snd (upvoteProduct service productId products) = Inr ()"
    using assms by (simp add: upvoteProduct_def)
  have 2: "length ?new = length products"
    by (simp add: new)
  have 3: "\<forall>i < length products.
      ?new ! i =
        (if strict_equals (product_id (products ! i)) productId
         then (products ! i)\<lparr>is_upvoted := \<not> is_upvoted (products ! i),
                upvote_count :=
                  (if is_upvoted (products ! i)
                   then js_subtract (upvote_count (products ! i)) (Finite 1)
                   else js_add (upvote_count (products ! i)) (Finite 1))\<rparr>
         else products ! i)"
    by (simp add: new)
  have 4: "\<forall>i < length products. \<forall>n.
      strict_equals (product_id (products ! i)) productId \<and>
      upvote_count (products ! i) = Finite (of_int n) \<and> \<bar>n\<bar> \<le> 2 ^ 53 - 1 \<longrightarrow>
      upvote_count (?new ! i) =
        Finite (of_int (n + (if is_upvoted (products ! i) then - 1 else 1)))"
  proof (intro allI impI)
    fix i n
    assume i: "i < length products"
      and h: "strict_equals (product_id (products ! i)) productId \<and>
        upvote_count (products ! i) = Finite (of_int n) \<and> \<bar>n\<bar> \<le> 2 ^ 53 - 1"
    from h have safe: "\<bar>n\<bar> \<le> 2 ^ 53 - 1"
      and count: "upvote_count (products ! i) = Finite (of_int n)"
      by simp_all
    have "js_add (upvote_count (products ! i)) (Finite 1) = Finite (of_int (n + 1))"
      and "js_subtract (upvote_count (products ! i)) (Finite 1) = Finite (of_int (n - 1))"
      unfolding count by (rule js_add_one [OF safe], rule js_subtract_one [OF safe])
    with 3 i h show "upvote_count (?new ! i) =
        Finite (of_int (n + (if is_upvoted (products ! i) then - 1 else 1)))"
      by simp
  qed
  have 5: "(\<forall>p \<in> set products. \<not> strict_equals (product_id p) productId) \<longrightarrow>
      ?new = products"
    by (auto simp: new map_idI)
  from 1 2 3 4 5 show ?thesis
    by blast
qed

theorem upvoteProduct_frame_witness:
  "(\<lambda>i::number. (Inr () :: unit + unit)) (Finite 1) = Inr () \<and>
   strict_equals (product_id (sample_product 1 False 5)) (Finite 1) \<and>
   upvote_count (sample_product 1 False 5) = Finite (of_int 5) \<and>
   \<bar>5 :: int\<bar> \<le> 2 ^ 53 - 1 \<and>
   fst (upvoteProduct (\<lambda>i::number. (Inr () :: unit + unit)) (Finite 1)
          [sample_product 1 False 5, sample_product 2 True 7]) ! 0 = sample_product 1 True 6 \<and>
   fst (upvoteProduct (\<lambda>i::number. (Inr () :: unit + unit)) (Finite 1)
          [sample_product 1 False 5, sample_product 2 True 7]) ! 1 = sample_product 2 True 7 \<and>
   upvote_count (fst (upvoteProduct (\<lambda>i::number. (Inr () :: unit + unit)) (Finite 2)
          [sample_product 1 False 5, sample_product 2 True 7]) ! 1) = Finite 6 \<and>
   fst (upvoteProduct (\<lambda>i::number. (Inr () :: unit + unit)) (Finite 3)
          [sample_product 1 False 5, sample_product 2 True 7]) =
     [sample_product 1 False 5, sample_product 2 True 7]"
proof -
  let ?service = "\<lambda>i::number. (Inr () :: unit + unit)"
  let ?products = "[sample_product 1 False 5, sample_product 2 True 7]"
  have ok: "?service x = Inr ()" for x
    by simp
  have id1: "strict_equals (product_id (sample_product 1 False 5)) (Finite 1)"
    and c1: "upvote_count (sample_product 1 False 5) = Finite (of_int 5)"
    by (simp_all add: sample_product_def strict_equals_def)
  have safe: "\<bar>5 :: int\<bar> \<le> 2 ^ 53 - 1"
    by simp
  have plus: "js_add (Finite 5) (Finite 1) = Finite 6"
    using js_add_one [of 5] by (simp del: js_add.simps)
  have minus: "js_subtract (Finite 7) (Finite 1) = Finite 6"
    using js_subtract_one [of 7] by (simp del: js_add.simps)
  note fields = sample_product_def strict_equals_def plus minus
  from upvoteProduct_frame [OF ok, of "Finite 1" ?products]
  have "\<forall>i < length ?products.
      fst (upvoteProduct ?service (Finite 1) ?products) ! i =
        (if strict_equals (product_id (?products ! i)) (Finite 1)
         then (?products ! i)\<lparr>is_upvoted := \<not> is_upvoted (?products ! i),
                upvote_count :=
                  (if is_upvoted (?products ! i)
                   then js_subtract (upvote_count (?products ! i)) (Finite 1)
                   else js_add (upvote_count (?products ! i)) (Finite 1))\<rparr>
         else ?products ! i)"
    by (rule conjunct1 [OF conjunct2 [OF conjunct2]])
  then have a: "fst (upvoteProduct ?service (Finite 1) ?products) ! 0 =
      sample_product 1 True 6"
    and b: "fst (upvoteProduct ?service (Finite 1) ?products) ! 1 =
      sample_product 2 True 7"
    by (simp_all add: fields del: js_add.simps)
  from upvoteProduct_frame [OF ok, of "Finite 2" ?products]
  have "\<forall>i < length ?products.
      fst (upvoteProduct ?service (Finite 2) ?products) ! i =
        (if strict_equals (product_id (?products ! i)) (Finite 2)
         then (?products ! i)\<lparr>is_upvoted := \<not> is_upvoted (?products ! i),
                upvote_count :=
                  (if is_upvoted (?products ! i)
                   then js_subtract (upvote_count (?products ! i)) (Finite 1)
                   else js_add (upvote_count (?products ! i)) (Finite 1))\<rparr>
         else ?products ! i)"
    by (rule conjunct1 [OF conjunct2 [OF conjunct2]])
  then have c: "upvote_count (fst (upvoteProduct ?service (Finite 2) ?products) ! 1) =
      Finite 6"
    by (simp add: fields del: js_add.simps)
  from upvoteProduct_frame [OF ok, of "Finite 3" ?products]
  have "(\<forall>p \<in> set ?products. \<not> strict_equals (product_id p) (Finite 3)) \<longrightarrow>
      fst (upvoteProduct ?service (Finite 3) ?products) = ?products"
    by (rule conjunct2 [OF conjunct2 [OF conjunct2 [OF conjunct2]]])
  then have d: "fst (upvoteProduct ?service (Finite 3) ?products) = ?products"
    by (simp add: sample_product_def strict_equals_def)
  from ok id1 c1 safe a b c d show ?thesis
    by blast
qed

section \<open>Properties of the HTTP client\<close>

lemmas client_defs =
  response_interceptor_rejected_def request_interceptor_def refreshAccessToken_def
  getRefreshToken_def getAccessToken_def or_null_def template_def storeTokens_def
  logout_def Let_def

lemmas sample_defs =
  sample_world_eq get_products_def default_headers_def unauthorized_def server_error_def
  env_500_def env_401_then_ok_def refresh_ok_def env_always_401_def refresh_denied_def
  env_401_denied_def

lemma trace_refreshAccessToken:
  "trace (snd (refreshAccessToken endpoint w)) =
     trace w @ (case getRefreshToken w of None \<Rightarrow> [] | Some rt \<Rightarrow> [RefreshPost rt])"
  by (simp add: refreshAccessToken_def Let_def storeTokens_def
        split: option.splits fetched.splits)

lemma refresh_fails_iff: "fst (refreshAccessToken endpoint w) = (\<not> refresh_fails endpoint w)"
  by (simp add: refreshAccessToken_def refresh_fails_def Let_def
        split: option.splits fetched.splits)

lemma api_not_401:
  assumes "\<not> answered_401 (adapter env (trace w @ [Sent (request_interceptor w cfg)])
                              (request_interceptor w cfg))"
  shows "api (Suc n) env w cfg =
     (w\<lparr>trace := trace w @ [Sent (request_interceptor w cfg),
          reply_event (adapter env (trace w @ [Sent (request_interceptor w cfg)])
                         (request_interceptor w cfg))]\<rparr>,
      Some (settled (request_interceptor w cfg)
              (adapter env (trace w @ [Sent (request_interceptor w cfg)])
                 (request_interceptor w cfg))))"
  using assms
  by (auto simp: Let_def answered_401_def reply_event_def settled_def
        response_interceptor_rejected_def split: outcome.splits option.splits)

lemma api_401:
  assumes "adapter env (trace w @ [Sent (request_interceptor w cfg)])
             (request_interceptor w cfg) = Reject msg resp"
    and "map_option status resp = Some 401"
  shows "api (Suc n) env w cfg =
     response_interceptor_rejected (api n env) env
       (w\<lparr>trace := trace w @ [Sent (request_interceptor w cfg), Rejected (Some 401)]\<rparr>)
       \<lparr>err_message = msg, response = resp, config = request_interceptor w cfg\<rparr>"
  using assms by (auto simp: Let_def)

text \<open>
  C5. When the reply to a request is a failure whose status is not 401 (or a failure with
  no response at all), the call settles at once: it rejects with the error the library
  made, the trace holds that one request and its reply, and tokens, user, storage and
  location are as before. The handler itself returns the error it was given and does not
  call the client again, whatever the state.
\<close>

theorem other_failures_are_not_retried:
  assumes "adapter env (trace w @ [Sent (request_interceptor w cfg)])
             (request_interceptor w cfg) = Reject msg resp"
    and "map_option status resp \<noteq> Some 401"
  shows "api (Suc n) env w cfg =
           (w\<lparr>trace := trace w @ [Sent (request_interceptor w cfg),
                                   Rejected (map_option status resp)]\<rparr>,
            Some (Inl \<lparr>err_message = msg, response = resp,
                       config = request_interceptor w cfg\<rparr>)) \<and>
         response_interceptor_rejected api_retry env w'
             \<lparr>err_message = msg, response = resp, config = c\<rparr> =
           (w', Some (Inl \<lparr>err_message = msg, response = resp, config = c\<rparr>))"
proof -
  from assms have "\<not> answered_401 (adapter env (trace w @ [Sent (request_interceptor w cfg)])
                                     (request_interceptor w cfg))"
    by (simp add: answered_401_def)
  from api_not_401 [OF this, of n] assms(1)
  have "api (Suc n) env w cfg =
           (w\<lparr>trace := trace w @ [Sent (request_interceptor w cfg),
                                   Rejected (map_option status resp)]\<rparr>,
            Some (Inl \<lparr>err_message = msg, response = resp,
                       config = request_interceptor w cfg\<rparr>))"
    by (simp del: api.simps add: reply_event_def settled_def)
  moreover from assms(2)
  have "response_interceptor_rejected api_retry env w'
             \<lparr>err_message = msg, response = resp, config = c\<rparr> =
           (w', Some (Inl \<lparr>err_message = msg, response = resp, config = c\<rparr>))"
    by (auto simp: response_interceptor_rejected_def)
  ultimately show ?thesis by simp
qed

theorem other_failures_are_not_retried_witness:
  "adapter env_500 (trace sample_world @ [Sent (request_interceptor sample_world get_products)])
     (request_interceptor sample_world get_products) =
     Reject ''Request failed with status code 500''
       (Some \<lparr>status = 500, body = ''detail: Database is down''\<rparr>) \<and>
   map_option status (Some \<lparr>status = 500, body = ''detail: Database is down''\<rparr>) \<noteq> Some 401 \<and>
   map_option (map_sum err_message body) (snd (api 5 env_500 sample_world get_products)) =
     Some (Inl ''Request failed with status code 500'') \<and>
   length (sent_requests (trace (fst (api 5 env_500 sample_world get_products)))) = 1 \<and>
   refresh_posts (trace (fst (api 5 env_500 sample_world get_products))) = [] \<and>
   tokens (fst (api 5 env_500 sample_world get_products)) = tokens sample_world \<and>
   href (fst (api 5 env_500 sample_world get_products)) = ''/''"
proof -
  have reply: "adapter env_500
      (trace sample_world @ [Sent (request_interceptor sample_world get_products)])
      (request_interceptor sample_world get_products) =
      Reject ''Request failed with status code 500''
        (Some \<lparr>status = 500, body = ''detail: Database is down''\<rparr>)"
    by (simp add: env_500_def server_error_def)
  have other: "map_option status (Some \<lparr>status = 500, body = ''detail: Database is down''\<rparr>)
      \<noteq> Some 401"
    by simp
  from other_failures_are_not_retried [OF reply other, of 4]
  have "api 5 env_500 sample_world get_products =
      (sample_world\<lparr>trace := trace sample_world @
           [Sent (request_interceptor sample_world get_products), Rejected (Some 500)]\<rparr>,
       Some (Inl \<lparr>err_message = ''Request failed with status code 500'',
                  response = Some \<lparr>status = 500, body = ''detail: Database is down''\<rparr>,
                  config = request_interceptor sample_world get_products\<rparr>))"
    by (simp del: api.simps)
  then show ?thesis
    using reply by (simp del: api.simps add: sample_world_eq)
qed

lemma api_Suc_cases [case_names settle give_up retry]:
  fixes n env w cfg
  defines "sent \<equiv> request_interceptor w cfg"
  defines "out \<equiv> adapter env (trace w @ [Sent sent]) sent"
  defines "w2 \<equiv> w\<lparr>trace := trace w @ [Sent sent, Rejected (Some 401)]\<rparr>"
  obtains
    (settle) "\<not> answered_401 out"
      and "api (Suc n) env w cfg =
             (w\<lparr>trace := trace w @ [Sent sent, reply_event out]\<rparr>, Some (settled sent out))"
  | (give_up) w3 where "answered_401 out"
      and "refreshAccessToken (refresh_endpoint env (trace w2)) w2 = (False, w3)"
      and "api (Suc n) env w cfg = ((logout w3)\<lparr>href := ''/login''\<rparr>, Some (settled sent out))"
  | (retry) w3 where "answered_401 out"
      and "refreshAccessToken (refresh_endpoint env (trace w2)) w2 = (True, w3)"
      and "api (Suc n) env w cfg =
             api n env w3
               (sent\<lparr>headers := (headers sent)
                  (''Authorization'' \<mapsto> ''Bearer '' @ template (getAccessToken w3))\<rparr>)"
proof (cases "answered_401 out")
  case False
  then have "api (Suc n) env w cfg =
      (w\<lparr>trace := trace w @ [Sent sent, reply_event out]\<rparr>, Some (settled sent out))"
    unfolding sent_def out_def by (rule api_not_401)
  with False show ?thesis
    by (rule settle)
next
  case True
  then obtain msg resp where out: "out = Reject msg resp"
    and st: "map_option status resp = Some 401"
    by (auto simp: answered_401_def split: outcome.splits)
  have step: "api (Suc n) env w cfg =
      response_interceptor_rejected (api n env) env w2
        \<lparr>err_message = msg, response = resp, config = sent\<rparr>"
    using out st unfolding out_def sent_def w2_def by (rule api_401)
  obtain ok w3 where r: "refreshAccessToken (refresh_endpoint env (trace w2)) w2 = (ok, w3)"
    by (cases "refreshAccessToken (refresh_endpoint env (trace w2)) w2")
  show ?thesis
  proof (cases ok)
    case False
    from False step r st out have "api (Suc n) env w cfg =
        ((logout w3)\<lparr>href := ''/login''\<rparr>, Some (settled sent out))"
      by (simp add: response_interceptor_rejected_def settled_def)
    moreover from r False
    have "refreshAccessToken (refresh_endpoint env (trace w2)) w2 = (False, w3)"
      by simp
    ultimately show ?thesis
      using True by (intro give_up)
  next
    case ok: True
    from ok step r st have "api (Suc n) env w cfg =
        api n env w3
          (sent\<lparr>headers := (headers sent)
             (''Authorization'' \<mapsto> ''Bearer '' @ template (getAccessToken w3))\<rparr>)"
      by (simp add: response_interceptor_rejected_def)
    moreover from r ok
    have "refreshAccessToken (refresh_endpoint env (trace w2)) w2 = (True, w3)"
      by simp
    ultimately show ?thesis
      using True by (intro retry)
  qed
qed

lemma trace_refreshAccessToken_False:
  "refreshAccessToken endpoint w = (False, w') \<Longrightarrow>
     trace w' = trace w @ (case getRefreshToken w of None \<Rightarrow> [] | Some rt \<Rightarrow> [RefreshPost rt])"
  using trace_refreshAccessToken [of endpoint w] by simp

lemma api_extends_trace: "\<exists>evs. trace (fst (api n env w cfg)) = trace w @ evs"
proof (induction n arbitrary: w cfg)
  case 0
  show ?case by simp
next
  case (Suc n)
  show ?case
  proof (cases rule: api_Suc_cases [of env w cfg n])
    case settle
    then show ?thesis by simp
  next
    case (give_up w3)
    from give_up(2) have "\<exists>evs. trace w3 = trace w @ evs"
      by (auto dest!: trace_refreshAccessToken_False)
    with give_up(3) show ?thesis
      by (auto simp: logout_def)
  next
    case (retry w3)
    from retry(2) obtain rt where "trace w3 = trace w @ [Sent (request_interceptor w cfg), Rejected (Some 401), RefreshPost rt]"
      by (auto elim!: refreshAccessToken_True simp: storeTokens_def)
    moreover from Suc.IH obtain evs where "trace (fst (api (Suc n) env w cfg)) = trace w3 @ evs"
      unfolding retry(3) by blast
    ultimately show ?thesis
      by simp
  qed
qed


lemma trace_refreshAccessToken_True:
  assumes "refreshAccessToken endpoint w = (True, w')"
  obtains rt d where "getRefreshToken w = Some rt" and "endpoint rt = Ok (Some d)"
    and "trace w' = trace w @ [RefreshPost rt]"
    and "tokens w' = Some \<lparr>access = new_access d, refresh = rt\<rparr>"
  using assms by (auto elim!: refreshAccessToken_True simp: storeTokens_def)

lemma refreshes_bounded:
  "\<exists>evs. trace (fst (api n env w cfg)) = trace w @ evs \<and>
         length (refresh_posts evs) \<le> rejections_401 evs \<and>
         length (sent_requests evs) \<le> Suc (length (refresh_posts evs))"
proof (induction n arbitrary: w cfg)
  case 0
  show ?case by simp
next
  case (Suc n)
  show ?case
  proof (cases rule: api_Suc_cases [of env w cfg n])
    case settle
    then show ?thesis
      by (simp add: reply_event_def split: outcome.splits)
  next
    case (give_up w3)
    from give_up(2) have "trace w3 =
        trace w @ [Sent (request_interceptor w cfg), Rejected (Some 401)] @
          (case getRefreshToken w of None \<Rightarrow> [] | Some rt \<Rightarrow> [RefreshPost rt])"
      by (auto dest!: trace_refreshAccessToken_False simp: getRefreshToken_def)
    with give_up(3) show ?thesis
      by (auto simp: logout_def split: option.splits)
  next
    case (retry w3)
    from retry(2) obtain rt where "trace w3 =
        trace w @ [Sent (request_interceptor w cfg), Rejected (Some 401), RefreshPost rt]"
      by (auto elim!: trace_refreshAccessToken_True)
    moreover from Suc.IH obtain evs
      where "trace (fst (api (Suc n) env w cfg)) = trace w3 @ evs"
        and "length (refresh_posts evs) \<le> rejections_401 evs"
        and "length (sent_requests evs) \<le> Suc (length (refresh_posts evs))"
      unfolding retry(3) by blast
    ultimately have "trace (fst (api (Suc n) env w cfg)) =
        trace w @ ([Sent (request_interceptor w cfg), Rejected (Some 401), RefreshPost rt] @ evs)"
      and "length (refresh_posts
        ([Sent (request_interceptor w cfg), Rejected (Some 401), RefreshPost rt] @ evs))
        \<le> rejections_401
        ([Sent (request_interceptor w cfg), Rejected (Some 401), RefreshPost rt] @ evs)"
      and "length (sent_requests
        ([Sent (request_interceptor w cfg), Rejected (Some 401), RefreshPost rt] @ evs))
        \<le> Suc (length (refresh_posts
        ([Sent (request_interceptor w cfg), Rejected (Some 401), RefreshPost rt] @ evs)))"
      by simp_all
    then show ?thesis
      by blast
  qed
qed

text \<open>
  \<^verbatim>\<open>refreshToken\<close> of the hook is a trigger for the components: when one of them calls
  it, it posts the stored refresh token if there is one. No component among the sources
  calls it.
\<close>

lemma useAuth_refreshToken_trace:
  "trace (fst (snd (useAuth_refreshToken endpoint (w, h)))) =
     trace w @ (case getRefreshToken w of None \<Rightarrow> [] | Some rt \<Rightarrow> [RefreshPost rt])"
  using trace_refreshAccessToken [of endpoint w]
  by (cases "refreshAccessToken endpoint w")
    (simp add: useAuth_refreshToken_def useAuth_logout_def logout_def)

text \<open>
  C6. Token refresh is reactive only. In every run of the HTTP client, cut at any bound,
  the events it adds to the trace are reactive: a refresh token is posted only directly
  after a reply that was rejected with status 401. So the client never starts a refresh
  ahead of a failure, on a token's age or otherwise: on the way out a request is only
  given its header and sent.
\<close>

theorem refresh_is_reactive:
  "\<exists>evs. trace (fst (api n env w cfg)) = trace w @ evs \<and> reactive False evs"
proof (induction n arbitrary: w cfg)
  case 0
  show ?case by simp
next
  case (Suc n)
  show ?case
  proof (cases rule: api_Suc_cases [of env w cfg n])
    case settle
    then show ?thesis
      by (simp add: reply_event_def split: outcome.splits)
  next
    case (give_up w3)
    from give_up(2) have "trace w3 =
        trace w @ [Sent (request_interceptor w cfg), Rejected (Some 401)] @
          (case getRefreshToken w of None \<Rightarrow> [] | Some rt \<Rightarrow> [RefreshPost rt])"
      by (auto dest!: trace_refreshAccessToken_False simp: getRefreshToken_def)
    with give_up(3) show ?thesis
      by (auto simp: logout_def split: option.splits)
  next
    case (retry w3)
    from retry(2) obtain rt where "trace w3 =
        trace w @ [Sent (request_interceptor w cfg), Rejected (Some 401), RefreshPost rt]"
      by (auto elim!: trace_refreshAccessToken_True)
    moreover from Suc.IH obtain evs
      where "trace (fst (api (Suc n) env w cfg)) = trace w3 @ evs" and "reactive False evs"
      unfolding retry(3) by blast
    ultimately have "trace (fst (api (Suc n) env w cfg)) =
        trace w @ ([Sent (request_interceptor w cfg), Rejected (Some 401), RefreshPost rt] @ evs)"
      and "reactive False
        ([Sent (request_interceptor w cfg), Rejected (Some 401), RefreshPost rt] @ evs)"
      by simp_all
    then show ?thesis
      by blast
  qed
qed

text \<open>
  The request interceptor, through which every request of the client passes first (the
  first event of a call is the sending of the intercepted configuration): when an access
  token is stored, the request carries the header \<^verbatim>\<open>Authorization\<close> with the text
  \<^verbatim>\<open>Bearer\<close>, a blank and the token; when none is stored, the interceptor attaches nothing
  and hands the configuration on as it is, so a request built with the default headers
  leaves it without an \<^verbatim>\<open>Authorization\<close> header. \<^verbatim>\<open>getAuthHeader\<close> yields the same
  header, or the empty object.
\<close>

lemma request_interceptor_attaches_token:
  "(getAccessToken w = Some token \<longrightarrow>
      headers (request_interceptor w cfg) ''Authorization'' = Some (''Bearer '' @ token) \<and>
      getAuthHeader w = [''Authorization'' \<mapsto> ''Bearer '' @ token]) \<and>
   (getAccessToken w = None \<longrightarrow>
      request_interceptor w cfg = cfg \<and>
      (headers cfg = default_headers \<longrightarrow>
         headers (request_interceptor w cfg) ''Authorization'' = None) \<and>
      getAuthHeader w = Map.empty) \<and>
   (\<exists>evs. trace (fst (api (Suc n) env w cfg)) =
            trace w @ Sent (request_interceptor w cfg) # evs)"
proof -
  have first: "\<exists>evs. trace (fst (api (Suc n) env w cfg)) =
      trace w @ Sent (request_interceptor w cfg) # evs"
  proof (cases rule: api_Suc_cases [of env w cfg n])
    case settle
    then show ?thesis by simp
  next
    case (give_up w3)
    from give_up(2) have "\<exists>evs. trace w3 =
        trace w @ Sent (request_interceptor w cfg) # evs"
      by (auto dest!: trace_refreshAccessToken_False)
    with give_up(3) show ?thesis
      by (auto simp: logout_def)
  next
    case (retry w3)
    from retry(2) obtain rt where "trace w3 =
        trace w @ [Sent (request_interceptor w cfg), Rejected (Some 401), RefreshPost rt]"
      by (auto elim!: trace_refreshAccessToken_True)
    moreover from api_extends_trace obtain evs
      where "trace (fst (api (Suc n) env w cfg)) = trace w3 @ evs"
      unfolding retry(3) by blast
    ultimately show ?thesis
      by simp
  qed
  have some: "getAccessToken w = Some token \<longrightarrow>
      headers (request_interceptor w cfg) ''Authorization'' = Some (''Bearer '' @ token) \<and>
      getAuthHeader w = [''Authorization'' \<mapsto> ''Bearer '' @ token]"
    by (simp add: request_interceptor_def getAuthHeader_def)
  have none: "getAccessToken w = None \<longrightarrow>
      request_interceptor w cfg = cfg \<and>
      (headers cfg = default_headers \<longrightarrow>
         headers (request_interceptor w cfg) ''Authorization'' = None) \<and>
      getAuthHeader w = Map.empty"
    by (simp add: request_interceptor_def getAuthHeader_def default_headers_def)
  from some none first show ?thesis
    by blast
qed

section \<open>The refresh flow\<close>

text \<open>
  The call \<^verbatim>\<open>api(originalRequest)\<close> in the response interceptor sends the request through
  the same client, so its reply is handled like the first one: a reply of 401 to that
  request starts another refresh. With a server that answers 401 every time and a refresh
  endpoint that accepts every token, a call never settles, whatever the bound.
\<close>

lemma never_settles:
  "getRefreshToken w \<noteq> None \<Longrightarrow> snd (api n env_always_401 w cfg) = None"
proof (induction n arbitrary: w cfg)
  case 0
  show ?case by simp
next
  case (Suc n)
  show ?case
  proof (cases rule: api_Suc_cases [of env_always_401 w cfg n])
    case settle
    then show ?thesis
      by (simp add: env_always_401_def unauthorized_def answered_401_def)
  next
    case (give_up w3)
    from give_up(2) Suc.prems show ?thesis
      by (auto simp: refreshAccessToken_def env_always_401_def refresh_ok_def Let_def
            getRefreshToken_def split: option.splits)
  next
    case (retry w3)
    from retry(2) have "getRefreshToken w3 \<noteq> None"
    proof (rule trace_refreshAccessToken_True)
      fix rt d
      assume "getRefreshToken
          (w\<lparr>trace := trace w @ [Sent (request_interceptor w cfg), Rejected (Some 401)]\<rparr>) =
          Some rt"
        and "tokens w3 = Some \<lparr>access = new_access d, refresh = rt\<rparr>"
      then show ?thesis
        by (auto simp: getRefreshToken_def or_null_Some_iff)
    qed
    then show ?thesis
      unfolding retry(3) by (rule Suc.IH)
  qed
qed

text \<open>
  One call of \<^verbatim>\<open>apiService.get\<close> whose first two replies are 401: the refresh token is
  posted twice before the third reply resolves the call.
\<close>

theorem refreshed_twice_for_one_request:
  "snd (apiService_get 3 (env_401_then_ok 2 ''new'') sample_world ''/products/products/'' None) =
     Some (Inr ''ok'') \<and>
   refresh_posts (trace (fst
     (apiService_get 3 (env_401_then_ok 2 ''new'') sample_world ''/products/products/'' None))) =
     [''r'', ''r''] \<and>
   length (sent_requests (trace (fst
     (apiService_get 3 (env_401_then_ok 2 ''new'') sample_world ''/products/products/'' None)))) =
     3"
  by (simp add: apiService_get_def response_data_def eval_nat_numeral sample_defs client_defs)

text \<open>
  C7. A request must carry the stored access token as \<^verbatim>\<open>Bearer\<close> header and no
  \<^verbatim>\<open>Authorization\<close> header when no access token is stored. The code at a failing input:
  tokens \<open>old\<close> and \<open>r\<close> are stored, \<^verbatim>\<open>apiService.get\<close> is answered 401, and the
  refresh endpoint answers ok with an empty access token. The refresh counts as a success
  and stores the empty token, so that \<^verbatim>\<open>getAccessToken()\<close> yields \<open>null\<close>; the
  response interceptor sets the header from its template without the test for a token
  that the request interceptor and \<^verbatim>\<open>getAuthHeader\<close> make, and the request goes out
  again with the header \<^verbatim>\<open>Bearer null\<close>.
\<close>

theorem retry_carries_bearer_null:
  "fst (refreshAccessToken (refresh_ok []) sample_world) \<and>
   getAccessToken (snd (refreshAccessToken (refresh_ok []) sample_world)) = None \<and>
   map (\<lambda>c. headers c ''Authorization'')
     (sent_requests (trace (fst
        (apiService_get 2 (env_401_then_ok 1 []) sample_world ''/products/products/'' None)))) =
     [Some ''Bearer old'', Some ''Bearer null''] \<and>
   getAccessToken (fst
     (apiService_get 2 (env_401_then_ok 1 []) sample_world ''/products/products/'' None)) =
     None \<and>
   snd (apiService_get 2 (env_401_then_ok 1 []) sample_world ''/products/products/'' None) =
     Some (Inr ''ok'')"
  by (simp add: apiService_get_def response_data_def eval_nat_numeral sample_defs client_defs)

text \<open>
  C1, as the code has it. Let a request be answered 401 while a refresh token is stored,
  and let the refresh endpoint accept it and issue a non-empty access token. Then the
  client posts that refresh token once, stores the new access token and sends the same
  request again through the client, with the header \<^verbatim>\<open>Authorization\<close> set to the new
  token (the request interceptor leaves it so). When the reply to this request is not a
  401 again, the call settles with it: one refresh, one request sent again. In every run
  there are at most as many refresh POSTs as 401 replies, and at most one request more
  than refresh POSTs; the bound is per 401 reply, not per call.
\<close>

theorem one_refresh_per_401:
  fixes env :: Env and w :: World and cfg :: RequestConfig and n :: nat
  defines "sent \<equiv> request_interceptor w cfg"
  defines "w' \<equiv> \<lambda>rt d. storeTokens \<lparr>access = new_access d, refresh = rt\<rparr>
                 (w\<lparr>trace := trace w @ [Sent sent, Rejected (Some 401), RefreshPost rt]\<rparr>)"
  defines "again \<equiv> \<lambda>d. sent\<lparr>headers := (headers sent)
                 (''Authorization'' \<mapsto> ''Bearer '' @ new_access d)\<rparr>"
  assumes stored: "getRefreshToken w = Some rt"
    and reply: "adapter env (trace w @ [Sent sent]) sent = Reject msg resp"
    and unauthorized: "map_option status resp = Some 401"
    and refreshed: "refresh_endpoint env (trace w @ [Sent sent, Rejected (Some 401)]) rt =
                      Ok (Some d)"
    and nonempty: "new_access d \<noteq> []"
  shows "api (Suc n) env w cfg = api n env (w' rt d) (again d) \<and>
         request_interceptor (w' rt d) (again d) = again d \<and>
         headers (again d) ''Authorization'' = Some (''Bearer '' @ new_access d) \<and>
         (\<not> answered_401 (adapter env (trace (w' rt d) @ [Sent (again d)]) (again d)) \<longrightarrow>
            api (Suc (Suc n)) env w cfg =
              ((w' rt d)\<lparr>trace := trace w @
                  [Sent sent, Rejected (Some 401), RefreshPost rt, Sent (again d),
                   reply_event (adapter env (trace (w' rt d) @ [Sent (again d)]) (again d))]\<rparr>,
               Some (settled (again d)
                       (adapter env (trace (w' rt d) @ [Sent (again d)]) (again d))))) \<and>
         (\<exists>evs. trace (fst (api n env w cfg)) = trace w @ evs \<and>
                length (refresh_posts evs) \<le> rejections_401 evs \<and>
                length (sent_requests evs) \<le> Suc (length (refresh_posts evs)))"
proof -
  let ?w2 = "w\<lparr>trace := trace w @ [Sent sent, Rejected (Some 401)]\<rparr>"
  have token: "getAccessToken (w' rt d) = Some (new_access d)"
    using nonempty by (simp add: w'_def getAccessToken_def storeTokens_def or_null_def)
  have refresh: "refreshAccessToken (refresh_endpoint env (trace ?w2)) ?w2 = (True, w' rt d)"
    using stored refreshed
    by (simp add: refreshAccessToken_def getRefreshToken_def w'_def Let_def)
  have step: "api (Suc m) env w cfg = api m env (w' rt d) (again d)" for m
  proof -
    have "api (Suc m) env w cfg =
        response_interceptor_rejected (api m env) env ?w2
          \<lparr>err_message = msg, response = resp, config = sent\<rparr>"
      using reply unauthorized unfolding sent_def by (rule api_401)
    also have "\<dots> = api m env (w' rt d) (again d)"
      using unauthorized refresh token
      by (simp add: response_interceptor_rejected_def template_def again_def)
    finally show ?thesis .
  qed
  have same: "request_interceptor (w' rt d) (again d) = again d"
    using token by (simp add: request_interceptor_def again_def)
  have header: "headers (again d) ''Authorization'' = Some (''Bearer '' @ new_access d)"
    by (simp add: again_def)
  have tr: "trace (w' rt d) = trace w @ [Sent sent, Rejected (Some 401), RefreshPost rt]"
    by (simp add: w'_def storeTokens_def)
  have once: "api (Suc (Suc n)) env w cfg =
      ((w' rt d)\<lparr>trace := trace w @
          [Sent sent, Rejected (Some 401), RefreshPost rt, Sent (again d),
           reply_event (adapter env (trace (w' rt d) @ [Sent (again d)]) (again d))]\<rparr>,
       Some (settled (again d) (adapter env (trace (w' rt d) @ [Sent (again d)]) (again d))))"
    if "\<not> answered_401 (adapter env (trace (w' rt d) @ [Sent (again d)]) (again d))"
  proof -
    from that have "\<not> answered_401
        (adapter env (trace (w' rt d) @ [Sent (request_interceptor (w' rt d) (again d))])
           (request_interceptor (w' rt d) (again d)))"
      unfolding same .
    from api_not_401 [OF this, of n] show ?thesis
      unfolding step [of "Suc n"] same by (simp only: tr append_assoc append_Cons append_Nil)
  qed
  from step [of n] same header once refreshes_bounded [of n env w cfg] show ?thesis
    by blast
qed

theorem one_refresh_per_401_witness:
  "getRefreshToken sample_world = Some ''r'' \<and>
   adapter (env_401_then_ok 1 ''new'')
     (trace sample_world @ [Sent (request_interceptor sample_world get_products)])
     (request_interceptor sample_world get_products) =
     Reject ''Request failed with status code 401'' (Some \<lparr>status = 401, body = []\<rparr>) \<and>
   map_option status (Some \<lparr>status = 401, body = []\<rparr>) = Some 401 \<and>
   refresh_endpoint (env_401_then_ok 1 ''new'')
     (trace sample_world @
        [Sent (request_interceptor sample_world get_products), Rejected (Some 401)]) ''r'' =
     Ok (Some \<lparr>new_access = ''new''\<rparr>) \<and>
   new_access \<lparr>new_access = ''new''\<rparr> \<noteq> [] \<and>
   refresh_posts (trace (fst (api 2 (env_401_then_ok 1 ''new'') sample_world get_products))) =
     [''r''] \<and>
   map (\<lambda>c. headers c ''Authorization'')
     (sent_requests
        (trace (fst (api 2 (env_401_then_ok 1 ''new'') sample_world get_products)))) =
     [Some ''Bearer old'', Some ''Bearer new''] \<and>
   map_option (map_sum err_message body)
     (snd (api 2 (env_401_then_ok 1 ''new'') sample_world get_products)) = Some (Inr ''ok'')"
proof -
  let ?env = "env_401_then_ok 1 ''new''"
  let ?sent = "request_interceptor sample_world get_products"
  let ?d = "\<lparr>new_access = ''new''\<rparr>"
  have stored: "getRefreshToken sample_world = Some ''r''"
    by (simp add: sample_world_eq getRefreshToken_def or_null_def)
  have reply: "adapter ?env (trace sample_world @ [Sent ?sent]) ?sent =
      Reject ''Request failed with status code 401'' (Some \<lparr>status = 401, body = []\<rparr>)"
    by (simp add: env_401_then_ok_def unauthorized_def sample_world_eq)
  have st: "map_option status (Some \<lparr>status = 401, body = []\<rparr>) = Some 401"
    by simp
  have refreshed: "refresh_endpoint ?env
      (trace sample_world @ [Sent ?sent, Rejected (Some 401)]) ''r'' = Ok (Some ?d)"
    by (simp add: env_401_then_ok_def refresh_ok_def)
  have nonempty: "new_access ?d \<noteq> []"
    by simp
  note inst = one_refresh_per_401 [OF stored reply st refreshed nonempty, of 0]
  have ok: "\<not> answered_401
      (adapter ?env
         (trace (storeTokens \<lparr>access = new_access ?d, refresh = ''r''\<rparr>
            (sample_world\<lparr>trace := trace sample_world @
               [Sent ?sent, Rejected (Some 401), RefreshPost ''r'']\<rparr>)) @
          [Sent (?sent\<lparr>headers := (headers ?sent)
             (''Authorization'' \<mapsto> ''Bearer '' @ new_access ?d)\<rparr>)])
         (?sent\<lparr>headers := (headers ?sent)
             (''Authorization'' \<mapsto> ''Bearer '' @ new_access ?d)\<rparr>))"
    by (simp add: env_401_then_ok_def answered_401_def storeTokens_def sample_world_eq)
  from inst ok have run: "api (Suc (Suc 0)) ?env sample_world get_products =
      ((storeTokens \<lparr>access = new_access ?d, refresh = ''r''\<rparr>
          (sample_world\<lparr>trace := trace sample_world @
             [Sent ?sent, Rejected (Some 401), RefreshPost ''r'']\<rparr>))
        \<lparr>trace := trace sample_world @
           [Sent ?sent, Rejected (Some 401), RefreshPost ''r'',
            Sent (?sent\<lparr>headers := (headers ?sent)
              (''Authorization'' \<mapsto> ''Bearer '' @ new_access ?d)\<rparr>),
            reply_event (adapter ?env
              (trace (storeTokens \<lparr>access = new_access ?d, refresh = ''r''\<rparr>
                 (sample_world\<lparr>trace := trace sample_world @
                    [Sent ?sent, Rejected (Some 401), RefreshPost ''r'']\<rparr>)) @
               [Sent (?sent\<lparr>headers := (headers ?sent)
                  (''Authorization'' \<mapsto> ''Bearer '' @ new_access ?d)\<rparr>)])
              (?sent\<lparr>headers := (headers ?sent)
                  (''Authorization'' \<mapsto> ''Bearer '' @ new_access ?d)\<rparr>))]\<rparr>,
       Some (settled (?sent\<lparr>headers := (headers ?sent)
                  (''Authorization'' \<mapsto> ''Bearer '' @ new_access ?d)\<rparr>)
               (adapter ?env
                  (trace (storeTokens \<lparr>access = new_access ?d, refresh = ''r''\<rparr>
                     (sample_world\<lparr>trace := trace sample_world @
                        [Sent ?sent, Rejected (Some 401), RefreshPost ''r'']\<rparr>)) @
                   [Sent (?sent\<lparr>headers := (headers ?sent)
                      (''Authorization'' \<mapsto> ''Bearer '' @ new_access ?d)\<rparr>)])
                  (?sent\<lparr>headers := (headers ?sent)
                      (''Authorization'' \<mapsto> ''Bearer '' @ new_access ?d)\<rparr>))))"
    by blast
  have two: "(2::nat) = Suc (Suc 0)"
    by simp
  have "refresh_posts (trace (fst (api 2 ?env sample_world get_products))) = [''r''] \<and>
    map (\<lambda>c. headers c ''Authorization'')
      (sent_requests (trace (fst (api 2 ?env sample_world get_products)))) =
      [Some ''Bearer old'', Some ''Bearer new''] \<and>
    map_option (map_sum err_message body) (snd (api 2 ?env sample_world get_products)) =
      Some (Inr ''ok'')"
    unfolding two run
    by (simp add: env_401_then_ok_def storeTokens_def sample_world_eq reply_event_def
          settled_def request_interceptor_def getAccessToken_def or_null_def)
  with stored reply st refreshed nonempty show ?thesis
    by blast
qed

section \<open>A failed refresh\<close>

lemma refresh_fails_trace:
  "refresh_fails endpoint (w\<lparr>trace := evs\<rparr>) = refresh_fails endpoint w"
  by (simp add: refresh_fails_def getRefreshToken_def)

lemma credentials_cleared_logout: "credentials_cleared (logout w)"
  by (simp add: credentials_cleared_def logout_def)

lemma refresh_fails_cases:
  "refresh_fails endpoint w \<longleftrightarrow>
     getRefreshToken w = None \<or>
     (\<exists>rt. getRefreshToken w = Some rt \<and>
        (endpoint rt = FetchFailed \<or> (\<exists>b. endpoint rt = NotOk b) \<or> endpoint rt = Ok None))"
  by (auto simp: refresh_fails_def split: option.splits fetched.splits)

lemma signed_in_eq:
  "signed_in =
     \<lparr>tokens = Some \<lparr>access = ''old'', refresh = ''r''\<rparr>, user = Some sample_user,
      localStorage = [''access_token'' \<mapsto> ''old'', ''refresh_token'' \<mapsto> ''r'',
                      ''user'' \<mapsto> ''ann''],
      href = ''/'', trace = []\<rparr>"
  by (simp add: signed_in_def setUser_def sample_world_eq sample_user_def)

text \<open>
  \<^verbatim>\<open>refreshToken\<close> of the hook with a refresh endpoint that turns the token down: the
  refresh fails and the location is still the one the page had.
\<close>

theorem hook_refresh_does_not_navigate:
  "refresh_fails refresh_denied signed_in \<and>
   \<not> fst (useAuth_refreshToken refresh_denied (signed_in, sample_hook)) \<and>
   href (fst (snd (useAuth_refreshToken refresh_denied (signed_in, sample_hook)))) = ''/'' \<and>
   href (fst (snd (useAuth_refreshToken refresh_denied (signed_in, sample_hook)))) \<noteq> ''/login''"
  by (simp add: useAuth_refreshToken_def useAuth_logout_def refreshAccessToken_def
        refresh_fails_def refresh_denied_def signed_in_eq getRefreshToken_def or_null_def
        logout_def Let_def)

text \<open>
  C2, as the code has it. Whenever the refresh fails (no refresh token stored, the fetch
  or the reading of the body throwing, a response that is not ok), all stored credentials
  are cleared, in the service and in \<^verbatim>\<open>localStorage\<close>. On the path of the hook the
  component state is reset as well and the location stays as it was. On the path of the
  response interceptor, after a reply of 401, the location is set to \<^verbatim>\<open>/login\<close> and the
  call rejects with the error of that reply.
\<close>

theorem failed_refresh_clears_credentials:
  "(refresh_fails endpoint w \<longrightarrow>
      \<not> fst (useAuth_refreshToken endpoint (w, h)) \<and>
      credentials_cleared (fst (snd (useAuth_refreshToken endpoint (w, h)))) \<and>
      hook_user (snd (snd (useAuth_refreshToken endpoint (w, h)))) = None \<and>
      \<not> hook_isAuthenticated (snd (snd (useAuth_refreshToken endpoint (w, h)))) \<and>
      href (fst (snd (useAuth_refreshToken endpoint (w, h)))) = href w) \<and>
   (adapter env (trace w @ [Sent (request_interceptor w cfg)]) (request_interceptor w cfg) =
      Reject msg resp \<and>
    map_option status resp = Some 401 \<and>
    refresh_fails
      (refresh_endpoint env (trace w @ [Sent (request_interceptor w cfg), Rejected (Some 401)]))
      w \<longrightarrow>
      credentials_cleared (fst (api (Suc n) env w cfg)) \<and>
      href (fst (api (Suc n) env w cfg)) = ''/login'' \<and>
      snd (api (Suc n) env w cfg) =
        Some (Inl \<lparr>err_message = msg, response = resp, config = request_interceptor w cfg\<rparr>))"
proof (intro conjI impI)
  assume fails: "refresh_fails endpoint w"
  obtain ok w1 where r: "refreshAccessToken endpoint w = (ok, w1)"
    by (cases "refreshAccessToken endpoint w")
  with fails refresh_fails_iff [of endpoint w] have ok: "\<not> ok"
    by simp
  with r have same: "href w1 = href w"
    by (auto dest: refreshAccessToken_False)
  from r ok have hook: "useAuth_refreshToken endpoint (w, h) =
      (False, (logout w1, h\<lparr>hook_user := None, hook_isAuthenticated := False\<rparr>))"
    by (simp add: useAuth_refreshToken_def useAuth_logout_def)
  show "\<not> fst (useAuth_refreshToken endpoint (w, h))"
    by (simp add: hook)
  show "credentials_cleared (fst (snd (useAuth_refreshToken endpoint (w, h))))"
    by (simp add: hook credentials_cleared_logout)
  show "hook_user (snd (snd (useAuth_refreshToken endpoint (w, h)))) = None"
    by (simp add: hook)
  show "\<not> hook_isAuthenticated (snd (snd (useAuth_refreshToken endpoint (w, h))))"
    by (simp add: hook)
  show "href (fst (snd (useAuth_refreshToken endpoint (w, h)))) = href w"
    by (simp add: hook logout_def same)
next
  let ?sent = "request_interceptor w cfg"
  let ?w2 = "w\<lparr>trace := trace w @ [Sent ?sent, Rejected (Some 401)]\<rparr>"
  let ?ep = "refresh_endpoint env (trace w @ [Sent ?sent, Rejected (Some 401)])"
  assume a: "adapter env (trace w @ [Sent ?sent]) ?sent = Reject msg resp \<and>
    map_option status resp = Some 401 \<and> refresh_fails ?ep w"
  then have reply: "adapter env (trace w @ [Sent ?sent]) ?sent = Reject msg resp"
    and st: "map_option status resp = Some 401"
    and fails: "refresh_fails ?ep ?w2"
    by (simp_all add: refresh_fails_trace)
  obtain ok w3 where r: "refreshAccessToken ?ep ?w2 = (ok, w3)"
    by (cases "refreshAccessToken ?ep ?w2")
  with fails refresh_fails_iff [of ?ep ?w2] have ok: "\<not> ok"
    by simp
  have "api (Suc n) env w cfg =
      response_interceptor_rejected (api n env) env ?w2
        \<lparr>err_message = msg, response = resp, config = ?sent\<rparr>"
    using reply st by (rule api_401)
  with r ok st have run: "api (Suc n) env w cfg =
      ((logout w3)\<lparr>href := ''/login''\<rparr>,
       Some (Inl \<lparr>err_message = msg, response = resp, config = ?sent\<rparr>))"
    by (simp add: response_interceptor_rejected_def)
  show "credentials_cleared (fst (api (Suc n) env w cfg))"
    unfolding run using credentials_cleared_logout [of w3]
    by (simp add: credentials_cleared_def)
  show "href (fst (api (Suc n) env w cfg)) = ''/login''"
    unfolding run by simp
  show "snd (api (Suc n) env w cfg) =
      Some (Inl \<lparr>err_message = msg, response = resp, config = ?sent\<rparr>)"
    unfolding run by simp
qed

theorem failed_refresh_clears_credentials_witness:
  "refresh_fails refresh_denied signed_in \<and>
   \<not> credentials_cleared signed_in \<and>
   credentials_cleared (fst (snd (useAuth_refreshToken refresh_denied (signed_in, sample_hook)))) \<and>
   adapter env_401_denied (trace signed_in @ [Sent (request_interceptor signed_in get_products)])
     (request_interceptor signed_in get_products) =
     Reject ''Request failed with status code 401'' (Some \<lparr>status = 401, body = []\<rparr>) \<and>
   map_option status (Some \<lparr>status = 401, body = []\<rparr>) = Some 401 \<and>
   refresh_fails
     (refresh_endpoint env_401_denied
        (trace signed_in @ [Sent (request_interceptor signed_in get_products),
                            Rejected (Some 401)]))
     signed_in \<and>
   credentials_cleared (fst (api 1 env_401_denied signed_in get_products)) \<and>
   href (fst (api 1 env_401_denied signed_in get_products)) = ''/login''"
proof -
  have fails: "refresh_fails refresh_denied signed_in"
    by (simp add: refresh_fails_def refresh_denied_def signed_in_eq getRefreshToken_def
          or_null_def)
  have before: "\<not> credentials_cleared signed_in"
    by (simp add: credentials_cleared_def signed_in_eq)
  have reply: "adapter env_401_denied
      (trace signed_in @ [Sent (request_interceptor signed_in get_products)])
      (request_interceptor signed_in get_products) =
      Reject ''Request failed with status code 401'' (Some \<lparr>status = 401, body = []\<rparr>)"
    by (simp add: env_401_denied_def unauthorized_def)
  have st: "map_option status (Some \<lparr>status = 401, body = []\<rparr>) = Some 401"
    by simp
  have fails': "refresh_fails
      (refresh_endpoint env_401_denied
         (trace signed_in @ [Sent (request_interceptor signed_in get_products),
                             Rejected (Some 401)]))
      signed_in"
    using fails by (simp add: env_401_denied_def)
  from failed_refresh_clears_credentials
    [of refresh_denied signed_in sample_hook env_401_denied get_products
        "''Request failed with status code 401''" "Some \<lparr>status = 401, body = []\<rparr>" 0]
    fails reply st fails' before
  show ?thesis
    by (simp del: api.simps)
qed

section \<open>How failures reach the caller\<close>


text \<open>
  An error body that cannot be read, or a fetch that fails, reaches the caller of
  \<^verbatim>\<open>login\<close> as the exception of the browser; so does the body \<open>null\<close>, whose property
  cannot be read.
\<close>

lemma login_unreadable:
  "(endpoint name password = NotOk None \<longrightarrow>
      login stringify number_to_string endpoint name password w = (w, Inl JsonSyntaxError)) \<and>
   (endpoint name password = FetchFailed \<longrightarrow>
      login stringify number_to_string endpoint name password w = (w, Inl FetchTypeError)) \<and>
   (endpoint name password = NotOk (Some JNull) \<longrightarrow>
      login stringify number_to_string endpoint name password w = (w, Inl NullTypeError))"
  by (simp add: login_def throw_error_def)

text \<open>
  A \<^verbatim>\<open>detail\<close> that is a list and not a text reaches the caller joined by commas.
\<close>

lemma login_detail_not_a_text:
  "endpoint name password =
     NotOk (Some (JObject [''detail'' \<mapsto> JArray [JString ''Too many attempts'', JNumber n]])) \<Longrightarrow>
   login stringify number_to_string endpoint name password w =
     (w, Inl (Error (''Too many attempts,'' @ number_to_string n)))"
  by (simp add: login_def throw_error_def own_property_def)





section \<open>The stored tokens after a refresh\<close>

text \<open>
  In every state the program can reach, the copies of the tokens in \<^verbatim>\<open>localStorage\<close>
  agree with the tokens the service holds.
\<close>

lemma tokens_synced_href: "tokens_synced (w\<lparr>href := l\<rparr>) = tokens_synced w"
  by (simp add: tokens_synced_def split: option.splits)

lemma tokens_synced_api: "tokens_synced w \<Longrightarrow> tokens_synced (fst (api n env w cfg))"
proof (induction n arbitrary: w cfg)
  case 0
  then show ?case by simp
next
  case (Suc n)
  show ?case
  proof (cases rule: api_Suc_cases [of env w cfg n])
    case settle
    with Suc.prems show ?thesis
      by (simp add: tokens_synced_trace)
  next
    case (give_up w3)
    then show ?thesis
      by (simp add: tokens_synced_href tokens_synced_logout)
  next
    case (retry w3)
    from Suc.prems have "tokens_synced
        (w\<lparr>trace := trace w @ [Sent (request_interceptor w cfg), Rejected (Some 401)]\<rparr>)"
      by (simp add: tokens_synced_trace)
    from tokens_synced_refreshAccessToken [OF this,
        of "refresh_endpoint env
              (trace (w\<lparr>trace := trace w @
                 [Sent (request_interceptor w cfg), Rejected (Some 401)]\<rparr>))"]
      retry(2)
    have "tokens_synced w3"
      by simp
    then show ?thesis
      unfolding retry(3) by (rule Suc.IH)
  qed
qed

lemma reachable_synced: "reachable w \<Longrightarrow> tokens_synced w"
proof (induction rule: reachable.induct)
  case (start storage location)
  show ?case by (rule tokens_synced_new)
next
  case (after_login w stringify number_to_string endpoint name password)
  then show ?case by (simp add: tokens_synced_login)
next
  case (after_register w stringify number_to_string reg_endpoint userData)
  then show ?case by (simp add: tokens_synced_register)
next
  case (after_googleLogin w stringify number_to_string google_endpoint credential)
  then show ?case by (simp add: tokens_synced_googleLogin)
next
  case (after_refresh w refresh_ep)
  then show ?case by (simp add: tokens_synced_refreshAccessToken)
next
  case (after_logout w)
  show ?case by (rule tokens_synced_logout)
next
  case (after_setUser w stringify u)
  then show ?case by (simp add: tokens_synced_setUser)
next
  case (after_getUser w parse)
  then show ?case by (simp add: tokens_synced_getUser)
next
  case (after_request w n env cfg)
  then show ?case by (simp add: tokens_synced_api del: api.simps)
qed

text \<open>
  C3. A successful refresh stores the newly issued access token and nothing else: the
  refresh token held by the service is the one it held before, the user and the location
  are untouched, and in \<^verbatim>\<open>localStorage\<close> only the two token entries are written, the
  refresh entry with the token the service already held. Where the stored copies agreed
  before, as they do in every state the program can reach, the \<^verbatim>\<open>refresh_token\<close>
  entry is therefore unchanged and only the \<^verbatim>\<open>access_token\<close> entry is new.
\<close>

theorem refresh_replaces_only_access_token:
  assumes "refreshAccessToken endpoint w = (True, w')"
  shows "\<exists>rt d. getRefreshToken w = Some rt \<and> endpoint rt = Ok (Some d) \<and>
           tokens w' = Some \<lparr>access = new_access d, refresh = rt\<rparr> \<and>
           map_option refresh (tokens w') = map_option refresh (tokens w) \<and>
           getRefreshToken w' = getRefreshToken w \<and>
           user w' = user w \<and> href w' = href w \<and>
           localStorage w' =
             (localStorage w)(''access_token'' \<mapsto> new_access d, ''refresh_token'' \<mapsto> rt) \<and>
           (tokens_synced w \<or> reachable w \<longrightarrow>
              localStorage w' = (localStorage w)(''access_token'' \<mapsto> new_access d))"
proof -
  from assms obtain rt d where rt: "getRefreshToken w = Some rt"
    and d: "endpoint rt = Ok (Some d)"
    and w': "w' = storeTokens \<lparr>access = new_access d, refresh = rt\<rparr>
                    (w\<lparr>trace := trace w @ [RefreshPost rt]\<rparr>)"
    by (rule refreshAccessToken_True)
  from rt obtain t where t: "tokens w = Some t" and rt_t: "refresh t = rt" and ne: "rt \<noteq> []"
    by (auto simp: getRefreshToken_def or_null_Some_iff)
  have mem: "map_option refresh (tokens w') = map_option refresh (tokens w)"
    by (simp add: w' storeTokens_def t rt_t)
  have get: "getRefreshToken w' = getRefreshToken w"
    by (simp add: getRefreshToken_def mem)
  have ls: "localStorage w' =
      (localStorage w)(''access_token'' \<mapsto> new_access d, ''refresh_token'' \<mapsto> rt)"
    by (simp add: w' storeTokens_def)
  have synced: "tokens_synced w \<or> reachable w \<longrightarrow>
      localStorage w' = (localStorage w)(''access_token'' \<mapsto> new_access d)"
  proof
    assume "tokens_synced w \<or> reachable w"
    then have "tokens_synced w"
      by (auto dest: reachable_synced)
    then have "localStorage w ''refresh_token'' = Some rt"
      by (simp add: tokens_synced_def t rt_t)
    then have "(localStorage w)(''refresh_token'' \<mapsto> rt) = localStorage w"
      by (simp add: fun_upd_idem)
    then show "localStorage w' = (localStorage w)(''access_token'' \<mapsto> new_access d)"
      by (simp add: ls fun_upd_twist [of "''access_token''" "''refresh_token''"])
  qed
  have "tokens w' = Some \<lparr>access = new_access d, refresh = rt\<rparr>"
    by (simp add: w' storeTokens_def)
  moreover have "user w' = user w \<and> href w' = href w"
    by (simp add: w' storeTokens_def)
  ultimately show ?thesis
    using rt d mem get ls synced by blast
qed

theorem refresh_replaces_only_access_token_witness:
  "refreshAccessToken (refresh_ok ''new'') sample_world =
     (True, snd (refreshAccessToken (refresh_ok ''new'') sample_world)) \<and>
   reachable sample_world \<and>
   tokens (snd (refreshAccessToken (refresh_ok ''new'') sample_world)) =
     Some \<lparr>access = ''new'', refresh = ''r''\<rparr> \<and>
   getRefreshToken (snd (refreshAccessToken (refresh_ok ''new'') sample_world)) = Some ''r'' \<and>
   localStorage (snd (refreshAccessToken (refresh_ok ''new'') sample_world)) ''refresh_token'' =
     localStorage sample_world ''refresh_token''"
proof -
  have run: "refreshAccessToken (refresh_ok ''new'') sample_world =
      (True, snd (refreshAccessToken (refresh_ok ''new'') sample_world))"
    by (simp add: refreshAccessToken_def sample_world_eq getRefreshToken_def or_null_def
          refresh_ok_def Let_def)
  have synced: "reachable sample_world"
    unfolding sample_world_def by (rule reachable.start)
  have old: "getRefreshToken sample_world = Some ''r''"
    by (simp add: sample_world_eq getRefreshToken_def or_null_def)
  from refresh_replaces_only_access_token [OF run] obtain rt d
    where rt: "getRefreshToken sample_world = Some rt"
      and d: "refresh_ok ''new'' rt = Ok (Some d)"
      and t: "tokens (snd (refreshAccessToken (refresh_ok ''new'') sample_world)) =
                Some \<lparr>access = new_access d, refresh = rt\<rparr>"
      and g: "getRefreshToken (snd (refreshAccessToken (refresh_ok ''new'') sample_world)) =
                getRefreshToken sample_world"
      and l: "tokens_synced sample_world \<or> reachable sample_world \<longrightarrow>
                localStorage (snd (refreshAccessToken (refresh_ok ''new'') sample_world)) =
                  (localStorage sample_world)(''access_token'' \<mapsto> new_access d)"
    by blast
  from rt old have "rt = ''r''"
    by simp
  moreover from d have "new_access d = ''new''"
    by (auto simp: refresh_ok_def)
  moreover from l synced
  have "localStorage (snd (refreshAccessToken (refresh_ok ''new'') sample_world))
          ''refresh_token'' = localStorage sample_world ''refresh_token''"
    by simp
  ultimately show ?thesis
    using run synced t g old by simp
qed

end
